theory Spec2Isabelle
  imports Main "HOL-Library.AList" "HOL-Library.Sublist"
begin

section \<open>Data model\<close>

text \<open>
  JSON values as Python sees them after \<^verbatim>\<open>json.loads\<close>: \<open>JNull\<close> is \<^verbatim>\<open>None\<close>, an
  object is a \<^verbatim>\<open>dict\<close> kept as an association list in insertion order (lookup takes
  the first entry of a key; a Python dict never holds a key twice). Numbers are the
  integers; no handler computes with a number.
\<close>

datatype json =
    JNull
  | JBool bool
  | JNum int
  | JStr string
  | JArr "json list"
  | JObj "(string \<times> json) list"

text \<open>Python truthiness, as tested by \<^verbatim>\<open>if not code\<close>.\<close>

fun truthy :: "json \<Rightarrow> bool" where
  "truthy JNull = False"
| "truthy (JBool b) = b"
| "truthy (JNum n) = (n \<noteq> 0)"
| "truthy (JStr s) = (s \<noteq> [])"
| "truthy (JArr xs) = (xs \<noteq> [])"
| "truthy (JObj kvs) = (kvs \<noteq> [])"

text \<open>The name Python prints for the type of a value in an \<^verbatim>\<open>AttributeError\<close>.\<close>

fun type_name :: "json \<Rightarrow> string" where
  "type_name JNull = ''NoneType''"
| "type_name (JBool b) = ''bool''"
| "type_name (JNum n) = ''int''"
| "type_name (JStr s) = ''str''"
| "type_name (JArr xs) = ''list''"
| "type_name (JObj kvs) = ''dict''"

text \<open>
  A response of the \<^verbatim>\<open>requests\<close> library. \<open>json_result\<close> is what \<^verbatim>\<open>response.json()\<close>
  does: \<open>Inr v\<close> returns \<open>v\<close>, \<open>Inl msg\<close> raises the library's JSONDecodeError with
  message \<open>msg\<close>. Status codes are the naturals the HTTP layer delivers.
\<close>

record response =
  status_code :: nat
  resp_text :: string
  json_result :: "string + json"
  reason :: string
  url :: string

text \<open>
  The exceptions the handlers can meet. \<open>ConnectionError\<close> and \<open>Timeout\<close> are the two
  transport faults of \<^verbatim>\<open>requests\<close>; \<open>HTTPError\<close> is raised by \<^verbatim>\<open>raise_for_status\<close> and
  carries the response; \<open>RequestFault\<close> is any other \<^verbatim>\<open>RequestException\<close> (no response
  attached); \<open>JSONDecodeError\<close> is raised by \<^verbatim>\<open>response.json()\<close> (a \<^verbatim>\<open>RequestException\<close>
  and a \<^verbatim>\<open>ValueError\<close>, no response attached); \<open>BadRequestBody\<close> is what Flask's
  \<^verbatim>\<open>request.json\<close> raises; \<open>OtherException\<close> is any other \<^verbatim>\<open>Exception\<close>.
\<close>

datatype py_exception =
    ConnectionError string
  | Timeout string
  | HTTPError string response
  | RequestFault string
  | JSONDecodeError string
  | AttributeError string
  | BadRequestBody string
  | OtherException string

fun exn_str :: "py_exception \<Rightarrow> string" where
  "exn_str (ConnectionError m) = m"
| "exn_str (Timeout m) = m"
| "exn_str (HTTPError m r) = m"
| "exn_str (RequestFault m) = m"
| "exn_str (JSONDecodeError m) = m"
| "exn_str (AttributeError m) = m"
| "exn_str (BadRequestBody m) = m"
| "exn_str (OtherException m) = m"

text \<open>The classes named by \<^verbatim>\<open>except (requests.ConnectionError, requests.Timeout)\<close>.\<close>

fun is_transport_fault :: "py_exception \<Rightarrow> bool" where
  "is_transport_fault (ConnectionError m) = True"
| "is_transport_fault (Timeout m) = True"
| "is_transport_fault e = False"

text \<open>The classes caught by \<^verbatim>\<open>except requests.RequestException\<close>.\<close>

fun is_request_exception :: "py_exception \<Rightarrow> bool" where
  "is_request_exception (ConnectionError m) = True"
| "is_request_exception (Timeout m) = True"
| "is_request_exception (HTTPError m r) = True"
| "is_request_exception (RequestFault m) = True"
| "is_request_exception (JSONDecodeError m) = True"
| "is_request_exception e = False"

text \<open>The attribute \<^verbatim>\<open>e.response\<close> of a \<^verbatim>\<open>RequestException\<close>.\<close>

fun exn_response :: "py_exception \<Rightarrow> response option" where
  "exn_response (HTTPError m r) = Some r"
| "exn_response e = None"

datatype level = INFO | WARNING | ERROR

type_synonym payload = "(string \<times> json) list"

text \<open>
  What a handler does to the outside world, in order: an upstream POST of a payload, an
  upstream GET (url, headers, query parameters), a sleep, a log record.
\<close>

datatype event =
    Post payload
  | Get string "(string \<times> string) list" "(string \<times> string) list"
  | Sleep nat
  | Log level string

datatype post_outcome = PostRaises py_exception | PostReturns response

datatype get_outcome = GetRaises py_exception | GetReturns response

text \<open>What a route returns: \<^verbatim>\<open>jsonify(body), status\<close>.\<close>

record http_response =
  status :: nat
  body :: json

definition jsonify :: "json \<Rightarrow> http_response" where
  "jsonify j = \<lparr>status = 200, body = j\<rparr>"

definition jsonify_status :: "json \<Rightarrow> nat \<Rightarrow> http_response" where
  "jsonify_status j s = \<lparr>status = s, body = j\<rparr>"

definition error_json :: "string \<Rightarrow> json" where
  "error_json msg = JObj [(''error'', JStr msg)]"

section \<open>Formatting\<close>

fun show_nat :: "nat \<Rightarrow> string" where
  "show_nat n =
     (if n < 10 then [char_of (48 + n)]
      else show_nat (n div 10) @ [char_of (48 + n mod 10)])"

declare show_nat.simps [simp del]

definition show_int :: "int \<Rightarrow> string" where
  "show_int i = (if i < 0 then CHR ''-'' # show_nat (nat (- i)) else show_nat (nat i))"

section \<open>Constants\<close>

definition STRAVA_AUTHORIZATION_URL :: string where
  "STRAVA_AUTHORIZATION_URL = ''https://www.strava.com/oauth/authorize''"

definition STRAVA_TOKEN_URL :: string where
  "STRAVA_TOKEN_URL = ''https://www.strava.com/api/v3/oauth/token''"

definition STRAVA_ACTIVITIES_URL :: string where
  "STRAVA_ACTIVITIES_URL = ''https://www.strava.com/api/v3/athlete/activities''"

definition STRAVA_ATHLETE_ZONES_URL :: string where
  "STRAVA_ATHLETE_ZONES_URL = ''https://www.strava.com/api/v3/athlete/zones''"

section \<open>The retrying token request\<close>

definition is_post :: "event \<Rightarrow> bool" where
  "is_post ev = (case ev of Post p \<Rightarrow> True | _ \<Rightarrow> False)"

definition is_get :: "event \<Rightarrow> bool" where
  "is_get ev = (case ev of Get u h q \<Rightarrow> True | _ \<Rightarrow> False)"

definition is_log :: "event \<Rightarrow> bool" where
  "is_log ev = (case ev of Log l m \<Rightarrow> True | _ \<Rightarrow> False)"

definition count_posts :: "event list \<Rightarrow> nat" where
  "count_posts tr = length (filter is_post tr)"

definition count_gets :: "event list \<Rightarrow> nat" where
  "count_gets tr = length (filter is_get tr)"

text \<open>The events other than log records: the calls to the upstream and the sleeps.\<close>

definition io_events :: "event list \<Rightarrow> event list" where
  "io_events tr = filter (\<lambda>ev. \<not> is_log ev) tr"

text \<open>
  The upstream token endpoint is a script \<open>cl\<close>: the outcome of the \<open>k\<close>-th POST made so
  far (counted from 0). Every run of a real client is a run against some script.

  \<^verbatim>\<open>make_token_request_with_retry(payload, max_retries=3)\<close>: the loop on \<open>retries\<close>.
  The result is \<open>Inr (Some response)\<close> for \<^verbatim>\<open>return response\<close>, \<open>Inl e\<close> for \<^verbatim>\<open>raise\<close>, and
  \<open>Inr None\<close> when the loop ends without running its body (Python then returns \<^verbatim>\<open>None\<close>).
\<close>

function retry_loop ::
  "(nat \<Rightarrow> post_outcome) \<Rightarrow> payload \<Rightarrow> int \<Rightarrow> int \<Rightarrow> event list
     \<Rightarrow> (py_exception + response option) \<times> event list" where
  "retry_loop cl payload max_retries retries tr =
     (if retries < max_retries then
        (case cl (count_posts tr) of
           PostReturns resp \<Rightarrow>
             (Inr (Some resp),
              tr @ [Log INFO (''Attempting token exchange (attempt '' @ show_int (retries + 1)
                       @ ''/'' @ show_int max_retries @ '')''),
                    Post payload])
         | PostRaises e \<Rightarrow>
             (if is_transport_fault e then
                (if retries + 1 < max_retries then
                   retry_loop cl payload max_retries (retries + 1)
                     (tr @ [Log INFO (''Attempting token exchange (attempt '' @ show_int (retries + 1)
                              @ ''/'' @ show_int max_retries @ '')''),
                            Post payload,
                            Log WARNING (''Network error during token exchange: '' @ exn_str e
                              @ ''. Retrying...''),
                            Sleep 1])
                 else
                   (Inl e,
                    tr @ [Log INFO (''Attempting token exchange (attempt '' @ show_int (retries + 1)
                             @ ''/'' @ show_int max_retries @ '')''),
                          Post payload,
                          Log ERROR (''Failed to exchange token after '' @ show_int max_retries
                             @ '' attempts: '' @ exn_str e)]))
              else
                (Inl e,
                 tr @ [Log INFO (''Attempting token exchange (attempt '' @ show_int (retries + 1)
                          @ ''/'' @ show_int max_retries @ '')''),
                       Post payload,
                       Log ERROR (''Unexpected error during token exchange: '' @ exn_str e)])))
      else (Inr None, tr))"
  by pat_completeness auto
termination
  by (relation "measure (\<lambda>(cl, payload, max_retries, retries, tr). nat (max_retries - retries))") auto

declare retry_loop.simps [simp del]

definition make_token_request_with_retry ::
  "(nat \<Rightarrow> post_outcome) \<Rightarrow> payload \<Rightarrow> int \<Rightarrow> event list
     \<Rightarrow> (py_exception + response option) \<times> event list" where
  "make_token_request_with_retry cl payload max_retries tr = retry_loop cl payload max_retries 0 tr"

text \<open>\<open>k\<close> POST attempts of a payload with a one-unit sleep between each two of them.\<close>

fun attempts :: "payload \<Rightarrow> nat \<Rightarrow> event list" where
  "attempts p 0 = []"
| "attempts p (Suc 0) = [Post p]"
| "attempts p (Suc (Suc k)) = Post p # Sleep 1 # attempts p (Suc k)"

section \<open>Configuration and library functions\<close>

text \<open>
  The module-level configuration read from the environment, and the two library
  renderings whose output no handler inspects: \<^verbatim>\<open>json.dumps\<close> and the text an f-string
  gives for a value that is not a string. \<open>STRAVA_CLIENT_ID\<close> and \<open>STRAVA_CLIENT_SECRET\<close>
  are \<open>None\<close> when the variable is absent.
\<close>

record runtime =
  STRAVA_CLIENT_ID :: "string option"
  STRAVA_CLIENT_SECRET :: "string option"
  EXPECTED_REDIRECT_URI :: string
  json_dumps :: "json \<Rightarrow> string"
  py_repr :: "json \<Rightarrow> string"

text \<open>\<^verbatim>\<open>not STRAVA_CLIENT_ID\<close>: the value is \<^verbatim>\<open>None\<close> or the empty string.\<close>

definition unset :: "string option \<Rightarrow> bool" where
  "unset x = (case x of None \<Rightarrow> True | Some v \<Rightarrow> v = [])"

text \<open>How an f-string renders a value: a string as itself.\<close>

definition fmt :: "runtime \<Rightarrow> json \<Rightarrow> string" where
  "fmt env v = (case v of JStr x \<Rightarrow> x | _ \<Rightarrow> py_repr env v)"

definition quote :: "string \<Rightarrow> string" where
  "quote x = CHR 0x27 # x @ [CHR 0x27]"

text \<open>\<^verbatim>\<open>obj.attr\<close> on a value whose type has no such attribute.\<close>

definition no_attribute :: "json \<Rightarrow> string \<Rightarrow> py_exception" where
  "no_attribute v attr =
     AttributeError (quote (type_name v) @ '' object has no attribute '' @ quote attr)"

text \<open>\<^verbatim>\<open>request_data.get(key)\<close>: \<^verbatim>\<open>None\<close> for a missing key, AttributeError off a dict.\<close>

definition dict_get :: "json \<Rightarrow> string \<Rightarrow> py_exception + json" where
  "dict_get d k =
     (case d of
        JObj kvs \<Rightarrow> Inr (case map_of kvs k of Some v \<Rightarrow> v | None \<Rightarrow> JNull)
      | _ \<Rightarrow> Inl (no_attribute d ''get''))"

text \<open>\<^verbatim>\<open>request.args.get(key, default)\<close>.\<close>

definition args_get :: "(string \<times> string) list \<Rightarrow> string \<Rightarrow> string \<Rightarrow> string" where
  "args_get args k d = (case map_of args k of Some v \<Rightarrow> v | None \<Rightarrow> d)"

text \<open>
  \<^verbatim>\<open>s.replace(old, new)\<close>: every occurrence found scanning from the left, the scan
  resuming after each replaced occurrence.
\<close>

function py_replace :: "string \<Rightarrow> string \<Rightarrow> string \<Rightarrow> string" where
  "py_replace old new s =
     (if old = [] then new @ concat (map (\<lambda>c. c # new) s)
      else if s = [] then []
      else if prefix old s then new @ py_replace old new (drop (length old) s)
      else hd s # py_replace old new (tl s))"
  by pat_completeness auto
termination
  by (relation "measure (\<lambda>(old, new, s). length s)") auto

declare py_replace.simps [simp del]

text \<open>\<^verbatim>\<open>response.raise_for_status()\<close> of the \<^verbatim>\<open>requests\<close> library.\<close>

definition raise_for_status :: "response \<Rightarrow> py_exception option" where
  "raise_for_status r =
     (if 400 \<le> status_code r \<and> status_code r < 500 then
        Some (HTTPError (show_nat (status_code r) @ '' Client Error: '' @ reason r
                @ '' for url: '' @ url r) r)
      else if 500 \<le> status_code r \<and> status_code r < 600 then
        Some (HTTPError (show_nat (status_code r) @ '' Server Error: '' @ reason r
                @ '' for url: '' @ url r) r)
      else None)"

section \<open>The token operations\<close>

text \<open>The dict comprehension that builds \<^verbatim>\<open>log_safe_data\<close>.\<close>

definition log_safe_data :: "(string \<times> json) list \<Rightarrow> (string \<times> json) list" where
  "log_safe_data token_data =
     map (\<lambda>(k, v). (k, if k \<notin> {''access_token'', ''refresh_token''} then v
                        else JStr ''[REDACTED]'')) token_data"

text \<open>
  \<^verbatim>\<open>exchange_token\<close>, lines 123 to 145: what the handler does with the response of the
  token endpoint.
\<close>

definition exchange_token_response ::
  "runtime \<Rightarrow> response \<Rightarrow> event list \<Rightarrow> (py_exception + http_response) \<times> event list" where
  "exchange_token_response env resp tr =
     (let tr1 = tr @ [Log INFO (''Token exchange response status: '' @ show_nat (status_code resp))]
      in if status_code resp \<noteq> 200 then
           (let error_msg = ''Strava API error: '' @ show_nat (status_code resp);
                error_body = take 500 (resp_text resp)
            in case json_result resp of
                 Inl m \<Rightarrow>
                   (Inr (jsonify_status (error_json (error_msg @ '' - '' @ error_body)) (status_code resp)),
                    tr1 @ [Log ERROR (''Token exchange error body: '' @ error_body)])
               | Inr error_data \<Rightarrow>
                   (case error_data of
                      JObj kvs \<Rightarrow>
                        (let error_detail =
                               (case map_of kvs ''message'' of
                                  Some v \<Rightarrow> v
                                | None \<Rightarrow> (case map_of kvs ''error'' of
                                             Some v \<Rightarrow> v
                                           | None \<Rightarrow> JStr (json_dumps env error_data)))
                         in (Inr (jsonify_status (error_json (error_msg @ '' - '' @ fmt env error_detail))
                                    (status_code resp)),
                             tr1 @ [Log ERROR (''Token exchange error response: ''
                                      @ json_dumps env error_data)]))
                    | _ \<Rightarrow>
                        (Inr (jsonify_status (error_json (error_msg @ '' - '' @ error_body)) (status_code resp)),
                         tr1 @ [Log ERROR (''Token exchange error response: '' @ json_dumps env error_data),
                                Log ERROR (''Token exchange error body: '' @ error_body)])))
         else
           (case json_result resp of
              Inl m \<Rightarrow> (Inl (JSONDecodeError m), tr1)
            | Inr token_data \<Rightarrow>
                (case token_data of
                   JObj kvs \<Rightarrow>
                     (Inr (jsonify token_data),
                      tr1 @ [Log INFO (''Token exchange successful: ''
                               @ json_dumps env (JObj (log_safe_data kvs)))])
                 | _ \<Rightarrow> (Inl (no_attribute token_data ''items''), tr1))))"

text \<open>
  \<^verbatim>\<open>exchange_token\<close>, the body of the \<^verbatim>\<open>try\<close>. \<open>request_json\<close> is what \<^verbatim>\<open>request.json\<close> gives:
  \<open>Inl e\<close> when Flask raises on the body, \<open>Inr v\<close> the parsed value.
\<close>

definition exchange_token_try ::
  "runtime \<Rightarrow> (nat \<Rightarrow> post_outcome) \<Rightarrow> py_exception + json \<Rightarrow> event list
     \<Rightarrow> (py_exception + http_response) \<times> event list" where
  "exchange_token_try env cl request_json tr =
     (case request_json of
        Inl e \<Rightarrow> (Inl e, tr)
      | Inr request_data \<Rightarrow>
          (let tr1 = tr @ [Log INFO (''Token exchange request received: ''
                             @ json_dumps env request_data)]
           in case dict_get request_data ''code'' of
                Inl e \<Rightarrow> (Inl e, tr1)
              | Inr code \<Rightarrow>
                  if \<not> truthy code then
                    (Inr (jsonify_status (error_json ''No authorization code provided'') 400),
                     tr1 @ [Log WARNING ''No authorization code provided in request''])
                  else if unset (STRAVA_CLIENT_ID env) \<or> unset (STRAVA_CLIENT_SECRET env) then
                    (Inr (jsonify_status
                            (error_json ''Server configuration error: API credentials missing'') 500),
                     tr1 @ [Log ERROR ''Strava API credentials are not configured on the server.''])
                  else
                    (let payload = [(''client_id'', JStr (the (STRAVA_CLIENT_ID env))),
                                    (''client_secret'', JStr (the (STRAVA_CLIENT_SECRET env))),
                                    (''code'', code),
                                    (''grant_type'', JStr ''authorization_code'')];
                         tr2 = tr1 @ [Log INFO (''Exchanging code for token with payload: ''
                                  @ json_dumps env (JObj (AList.update ''client_secret''
                                        (JStr ''[REDACTED]'') payload)))]
                     in case make_token_request_with_retry cl payload 3 tr2 of
                          (Inl e, tr3) \<Rightarrow> (Inl e, tr3)
                        | (Inr None, tr3) \<Rightarrow> (Inl (no_attribute JNull ''status_code''), tr3)
                        | (Inr (Some resp), tr3) \<Rightarrow> exchange_token_response env resp tr3)))"

text \<open>\<^verbatim>\<open>exchange_token\<close> with its \<^verbatim>\<open>except Exception\<close>, which answers 500.\<close>

definition exchange_token ::
  "runtime \<Rightarrow> (nat \<Rightarrow> post_outcome) \<Rightarrow> py_exception + json \<Rightarrow> event list
     \<Rightarrow> (py_exception + http_response) \<times> event list" where
  "exchange_token env cl request_json tr =
     (case exchange_token_try env cl request_json tr of
        (Inr r, tr1) \<Rightarrow> (Inr r, tr1)
      | (Inl e, tr1) \<Rightarrow>
          (Inr (jsonify_status (error_json (''Exception during token exchange: '' @ exn_str e)) 500),
           tr1 @ [Log ERROR ''Token exchange failed'']))"

text \<open>\<^verbatim>\<open>refresh_token\<close>, lines 229 to 249.\<close>

definition refresh_token_response ::
  "runtime \<Rightarrow> response \<Rightarrow> event list \<Rightarrow> (py_exception + http_response) \<times> event list" where
  "refresh_token_response env resp tr =
     (let tr1 = tr @ [Log INFO (''Token refresh response status: '' @ show_nat (status_code resp))]
      in if status_code resp \<noteq> 200 then
           (let error_msg = ''Strava API error: '' @ show_nat (status_code resp);
                error_body = take 500 (resp_text resp)
            in case json_result resp of
                 Inl m \<Rightarrow>
                   (Inr (jsonify_status (error_json (error_msg @ '' - '' @ error_body)) (status_code resp)),
                    tr1 @ [Log ERROR (''Token refresh error body: '' @ error_body)])
               | Inr error_data \<Rightarrow>
                   (case error_data of
                      JObj kvs \<Rightarrow>
                        (let error_detail =
                               (case map_of kvs ''message'' of
                                  Some v \<Rightarrow> v
                                | None \<Rightarrow> (case map_of kvs ''error'' of
                                             Some v \<Rightarrow> v
                                           | None \<Rightarrow> JStr (json_dumps env error_data)))
                         in (Inr (jsonify_status (error_json (error_msg @ '' - '' @ fmt env error_detail))
                                    (status_code resp)),
                             tr1 @ [Log ERROR (''Token refresh error response: ''
                                      @ json_dumps env error_data)]))
                    | _ \<Rightarrow>
                        (Inr (jsonify_status (error_json (error_msg @ '' - '' @ error_body)) (status_code resp)),
                         tr1 @ [Log ERROR (''Token refresh error response: '' @ json_dumps env error_data),
                                Log ERROR (''Token refresh error body: '' @ error_body)])))
         else
           (case json_result resp of
              Inl m \<Rightarrow> (Inl (JSONDecodeError m), tr1)
            | Inr token_data \<Rightarrow>
                (case token_data of
                   JObj kvs \<Rightarrow>
                     (Inr (jsonify token_data),
                      tr1 @ [Log INFO (''Token refresh successful: ''
                               @ json_dumps env (JObj (log_safe_data kvs)))])
                 | _ \<Rightarrow> (Inl (no_attribute token_data ''items''), tr1))))"

text \<open>\<^verbatim>\<open>refresh_token\<close>, the body of the \<^verbatim>\<open>try\<close>.\<close>

definition refresh_token_try ::
  "runtime \<Rightarrow> (nat \<Rightarrow> post_outcome) \<Rightarrow> py_exception + json \<Rightarrow> event list
     \<Rightarrow> (py_exception + http_response) \<times> event list" where
  "refresh_token_try env cl request_json tr =
     (case request_json of
        Inl e \<Rightarrow> (Inl e, tr)
      | Inr request_data \<Rightarrow>
          (case dict_get request_data ''refresh_token'' of
             Inl e \<Rightarrow> (Inl e, tr)
           | Inr refresh_token_val \<Rightarrow>
               if \<not> truthy refresh_token_val then
                 (Inr (jsonify_status (error_json ''No refresh token provided'') 400), tr)
               else if unset (STRAVA_CLIENT_ID env) \<or> unset (STRAVA_CLIENT_SECRET env) then
                 (Inr (jsonify_status
                         (error_json ''Server configuration error: API credentials missing'') 500),
                  tr @ [Log ERROR ''Strava API credentials are not configured on the server.''])
               else
                 (let payload = [(''client_id'', JStr (the (STRAVA_CLIENT_ID env))),
                                 (''client_secret'', JStr (the (STRAVA_CLIENT_SECRET env))),
                                 (''refresh_token'', refresh_token_val),
                                 (''grant_type'', JStr ''refresh_token'')];
                      tr2 = tr @ [Log INFO (''Refreshing token with payload: ''
                               @ json_dumps env (JObj (AList.update ''refresh_token'' (JStr ''[REDACTED]'')
                                     (AList.update ''client_secret'' (JStr ''[REDACTED]'') payload))))]
                  in case make_token_request_with_retry cl payload 3 tr2 of
                       (Inl e, tr3) \<Rightarrow> (Inl e, tr3)
                     | (Inr None, tr3) \<Rightarrow> (Inl (no_attribute JNull ''status_code''), tr3)
                     | (Inr (Some resp), tr3) \<Rightarrow> refresh_token_response env resp tr3)))"

text \<open>\<^verbatim>\<open>refresh_token\<close> with its \<^verbatim>\<open>except Exception\<close>.\<close>

definition refresh_token ::
  "runtime \<Rightarrow> (nat \<Rightarrow> post_outcome) \<Rightarrow> py_exception + json \<Rightarrow> event list
     \<Rightarrow> (py_exception + http_response) \<times> event list" where
  "refresh_token env cl request_json tr =
     (case refresh_token_try env cl request_json tr of
        (Inr r, tr1) \<Rightarrow> (Inr r, tr1)
      | (Inl e, tr1) \<Rightarrow>
          (Inr (jsonify_status (error_json (''Exception during token refresh: '' @ exn_str e)) 500),
           tr1 @ [Log ERROR ''Token refresh failed'']))"

section \<open>The fetch operations\<close>

text \<open>
  The upstream data endpoints are a script \<open>gcl\<close>: the outcome of the \<open>k\<close>-th GET made so
  far. \<open>auth\<close> is the value of the request's Authorization header, \<open>None\<close> when the header
  is absent; \<open>args\<close> are the items of \<^verbatim>\<open>request.args\<close>.

  The \<^verbatim>\<open>try\<close> of both handlers: the GET, \<^verbatim>\<open>raise_for_status\<close>, \<^verbatim>\<open>jsonify(response.json())\<close>.
\<close>

definition fetch_try :: "get_outcome \<Rightarrow> py_exception + http_response" where
  "fetch_try out =
     (case out of
        GetRaises e \<Rightarrow> Inl e
      | GetReturns resp \<Rightarrow>
          (case raise_for_status resp of
             Some e \<Rightarrow> Inl e
           | None \<Rightarrow>
               (case json_result resp of
                  Inl m \<Rightarrow> Inl (JSONDecodeError m)
                | Inr v \<Rightarrow> Inr (jsonify v))))"

definition get_activities ::
  "(nat \<Rightarrow> get_outcome) \<Rightarrow> string option \<Rightarrow> (string \<times> string) list \<Rightarrow> event list
     \<Rightarrow> (py_exception + http_response) \<times> event list" where
  "get_activities gcl auth args tr =
     (let access_token = py_replace ''Bearer '' [] (case auth of None \<Rightarrow> [] | Some h \<Rightarrow> h)
      in if access_token = [] then
           (Inr (jsonify_status (error_json ''No access token provided'') 401), tr)
         else
           (let tr1 = tr @ [Get STRAVA_ACTIVITIES_URL
                              [(''Authorization'', ''Bearer '' @ access_token)] args]
            in case fetch_try (gcl (count_gets tr)) of
                 Inr r \<Rightarrow> (Inr r, tr1)
               | Inl e \<Rightarrow>
                   if is_request_exception e then
                     (let tr2 = tr1 @ [Log ERROR (''Error fetching activities: '' @ exn_str e)]
                      in case exn_response e of
                           Some resp \<Rightarrow>
                             (case json_result resp of
                                Inr v \<Rightarrow> (Inr (jsonify_status v (status_code resp)), tr2)
                              | Inl m \<Rightarrow>
                                  (Inr (jsonify_status (error_json (exn_str e)) (status_code resp)), tr2))
                         | None \<Rightarrow> (Inr (jsonify_status (error_json (exn_str e)) 500), tr2))
                   else (Inl e, tr1)))"

definition get_athlete_zones ::
  "(nat \<Rightarrow> get_outcome) \<Rightarrow> string option \<Rightarrow> event list
     \<Rightarrow> (py_exception + http_response) \<times> event list" where
  "get_athlete_zones gcl auth tr =
     (let access_token = py_replace ''Bearer '' [] (case auth of None \<Rightarrow> [] | Some h \<Rightarrow> h)
      in if access_token = [] then
           (Inr (jsonify_status (error_json ''No access token provided'') 401), tr)
         else
           (let tr1 = tr @ [Get STRAVA_ATHLETE_ZONES_URL
                              [(''Authorization'', ''Bearer '' @ access_token)] []]
            in case fetch_try (gcl (count_gets tr)) of
                 Inr r \<Rightarrow> (Inr r, tr1)
               | Inl e \<Rightarrow>
                   if is_request_exception e then
                     (let tr2 = tr1 @ [Log ERROR (''Error fetching athlete zones: '' @ exn_str e)]
                      in case exn_response e of
                           Some resp \<Rightarrow>
                             (case json_result resp of
                                Inr v \<Rightarrow> (Inr (jsonify_status v (status_code resp)), tr2)
                              | Inl m \<Rightarrow>
                                  (Inr (jsonify_status (error_json (exn_str e)) (status_code resp)), tr2))
                         | None \<Rightarrow> (Inr (jsonify_status (error_json (exn_str e)) 500), tr2))
                   else (Inl e, tr1)))"

section \<open>The authorization URL\<close>

definition get_auth_url ::
  "runtime \<Rightarrow> (string \<times> string) list \<Rightarrow> event list
     \<Rightarrow> (py_exception + http_response) \<times> event list" where
  "get_auth_url env args tr =
     (let redirect_uri = args_get args ''redirect_uri'' (EXPECTED_REDIRECT_URI env);
          scopes = args_get args ''scopes'' ''read,activity:read_all,profile:read_all'';
          tr1 = tr @ [Log INFO (''Generating auth URL with redirect_uri: '' @ redirect_uri
                   @ '', client_id: ''
                   @ (if STRAVA_CLIENT_ID env \<noteq> None then ''True'' else ''False''))]
      in if unset (STRAVA_CLIENT_ID env) then
           (Inr (jsonify_status
                   (error_json ''Server configuration error: STRAVA_CLIENT_ID missing'') 500),
            tr1 @ [Log ERROR ''STRAVA_CLIENT_ID is not set.''])
         else
           (Inr (jsonify (JObj [(''url'',
                    JStr (STRAVA_AUTHORIZATION_URL @ ''?client_id='' @ the (STRAVA_CLIENT_ID env)
                      @ ''&redirect_uri='' @ redirect_uri @ ''&response_type=code&scope=''
                      @ scopes))])),
            tr1))"

section \<open>Notions used in the statements\<close>

text \<open>A POST that ends in one of the two transport faults.\<close>

definition transport_failure :: "post_outcome \<Rightarrow> bool" where
  "transport_failure out = (case out of PostRaises e \<Rightarrow> is_transport_fault e | PostReturns r \<Rightarrow> False)"

text \<open>What the retrying request hands back when an outcome ends its loop.\<close>

definition outcome_result :: "post_outcome \<Rightarrow> py_exception + response option" where
  "outcome_result out = (case out of PostRaises e \<Rightarrow> Inl e | PostReturns r \<Rightarrow> Inr (Some r))"

text \<open>A body of the form \<^verbatim>\<open>{"error": message}\<close>.\<close>

definition is_error_body :: "json \<Rightarrow> bool" where
  "is_error_body j = (case j of JObj [(k, JStr m)] \<Rightarrow> k = ''error'' | _ \<Rightarrow> False)"

text \<open>The upstream calls and sleeps of a trace with the posted payloads left out.\<close>

definition erase_payload :: "event \<Rightarrow> event" where
  "erase_payload ev = (case ev of Post p \<Rightarrow> Post [] | _ \<Rightarrow> ev)"

definition io_shape :: "event list \<Rightarrow> event list" where
  "io_shape tr = map erase_payload (io_events tr)"

text \<open>The response an outcome of a GET leaves in the handler's hands, if any.\<close>

definition outcome_response :: "get_outcome \<Rightarrow> response option" where
  "outcome_response out = (case out of GetReturns r \<Rightarrow> Some r | GetRaises e \<Rightarrow> exn_response e)"

text \<open>A GET that returns, or raises within \<^verbatim>\<open>requests.RequestException\<close>.\<close>

definition request_outcome :: "get_outcome \<Rightarrow> bool" where
  "request_outcome out = (case out of GetReturns r \<Rightarrow> True | GetRaises e \<Rightarrow> is_request_exception e)"

text \<open>A required field of the request body that is absent or falsy (\<^verbatim>\<open>if not code\<close>).\<close>

definition missing :: "(string \<times> json) list \<Rightarrow> string \<Rightarrow> bool" where
  "missing kvs k = (case map_of kvs k of None \<Rightarrow> True | Some v \<Rightarrow> \<not> truthy v)"

text \<open>The access token both fetch handlers take from the Authorization header.\<close>

definition bearer_token :: "string option \<Rightarrow> string" where
  "bearer_token auth = py_replace ''Bearer '' [] (case auth of None \<Rightarrow> [] | Some h \<Rightarrow> h)"

text \<open>The payload \<^verbatim>\<open>exchange_token\<close> posts.\<close>

definition authorization_code_grant :: "runtime \<Rightarrow> json \<Rightarrow> payload" where
  "authorization_code_grant env code =
     [(''client_id'', JStr (the (STRAVA_CLIENT_ID env))),
      (''client_secret'', JStr (the (STRAVA_CLIENT_SECRET env))),
      (''code'', code),
      (''grant_type'', JStr ''authorization_code'')]"

text \<open>The payload \<^verbatim>\<open>refresh_token\<close> posts.\<close>

definition refresh_token_grant :: "runtime \<Rightarrow> json \<Rightarrow> payload" where
  "refresh_token_grant env v =
     [(''client_id'', JStr (the (STRAVA_CLIENT_ID env))),
      (''client_secret'', JStr (the (STRAVA_CLIENT_SECRET env))),
      (''refresh_token'', v),
      (''grant_type'', JStr ''refresh_token'')]"

text \<open>Both credentials are set.\<close>

definition configured :: "runtime \<Rightarrow> bool" where
  "configured env = (\<not> unset (STRAVA_CLIENT_ID env) \<and> \<not> unset (STRAVA_CLIENT_SECRET env))"

text \<open>The request body parsed, and parsed to a JSON object.\<close>

definition is_object :: "py_exception + json \<Rightarrow> bool" where
  "is_object rq = (case rq of Inr (JObj kvs) \<Rightarrow> True | _ \<Rightarrow> False)"

text \<open>The body and status of a response are those the upstream response of a GET carried.\<close>

definition relayed :: "http_response \<Rightarrow> get_outcome \<Rightarrow> bool" where
  "relayed r out =
     (case outcome_response out of
        Some resp \<Rightarrow> json_result resp = Inr (body r) \<and> status r = status_code resp
      | None \<Rightarrow> False)"

text \<open>
  A request to exchange-token and a request to refresh-token that correspond under the
  substitution of \<open>refresh_token\<close> for \<open>code\<close>: two JSON objects, the first holding under
  \<open>code\<close> what the second holds under \<open>refresh_token\<close>, or else the same body.
\<close>

definition corresponding :: "py_exception + json \<Rightarrow> py_exception + json \<Rightarrow> bool" where
  "corresponding rq_e rq_r =
     (case rq_r of
        Inr (JObj r) \<Rightarrow>
          (case rq_e of
             Inr (JObj e) \<Rightarrow> map_of e ''code'' = map_of r ''refresh_token''
           | _ \<Rightarrow> False)
      | _ \<Rightarrow> rq_e = rq_r)"

text \<open>The two answers to a missing field.\<close>

definition no_code :: http_response where
  "no_code = \<lparr>status = 400, body = error_json ''No authorization code provided''\<rparr>"

definition no_refresh_token :: http_response where
  "no_refresh_token = \<lparr>status = 400, body = error_json ''No refresh token provided''\<rparr>"

section \<open>Sample inputs\<close>

definition env0 :: runtime where
  "env0 = \<lparr>STRAVA_CLIENT_ID = Some ''42'', STRAVA_CLIENT_SECRET = Some ''s3cret'',
            EXPECTED_REDIRECT_URI = ''http://localhost:3000/exchange_token'',
            json_dumps = (\<lambda>j. ''<json>''), py_repr = (\<lambda>j. ''<repr>'')\<rparr>"

definition token_body :: json where
  "token_body = JObj [(''access_token'', JStr ''X''), (''refresh_token'', JStr ''Y''),
                      (''expires_at'', JNum 123)]"

definition resp_200 :: response where
  "resp_200 = \<lparr>status_code = 200, resp_text = ''{...}'', json_result = Inr token_body,
                 reason = ''OK'', url = STRAVA_TOKEN_URL\<rparr>"

definition resp_401 :: response where
  "resp_401 = \<lparr>status_code = 401, resp_text = ''{\"message\":\"Authorization Error\"}'',
                 json_result = Inr (JObj [(''message'', JStr ''Authorization Error'')]),
                 reason = ''Unauthorized'', url = STRAVA_TOKEN_URL\<rparr>"

text \<open>A token endpoint that times out \<open>n\<close> times and then answers \<open>r\<close>.\<close>

definition fails_then :: "nat \<Rightarrow> response \<Rightarrow> nat \<Rightarrow> post_outcome" where
  "fails_then n r k = (if k < n then PostRaises (Timeout ''timed out'') else PostReturns r)"

definition resp_201 :: response where
  "resp_201 = \<lparr>status_code = 201, resp_text = ''{...}'', json_result = Inr token_body,
                 reason = ''Created'', url = STRAVA_TOKEN_URL\<rparr>"

text \<open>An upstream that answers every GET with 401 and a JSON body of its own.\<close>

definition gcl_401 :: "nat \<Rightarrow> get_outcome" where
  "gcl_401 k = GetReturns resp_401"

text \<open>
  A rendering in the manner of \<^verbatim>\<open>json.dumps\<close> for an object of scalars, for use as
  \<open>json_dumps\<close> in a concrete run.
\<close>

definition sample_scalar :: "json \<Rightarrow> string" where
  "sample_scalar j =
     (case j of
        JNull \<Rightarrow> ''null''
      | JBool b \<Rightarrow> (if b then ''true'' else ''false'')
      | JNum n \<Rightarrow> show_int n
      | JStr x \<Rightarrow> CHR 0x22 # x @ [CHR 0x22]
      | JArr xs \<Rightarrow> ''[...]''
      | JObj kvs \<Rightarrow> ''{...}'')"

fun sample_members :: "(string \<times> json) list \<Rightarrow> string" where
  "sample_members [] = []"
| "sample_members [(k, v)] = CHR 0x22 # k @ CHR 0x22 # '': '' @ sample_scalar v"
| "sample_members ((k, v) # kvs) =
     CHR 0x22 # k @ CHR 0x22 # '': '' @ sample_scalar v @ '', '' @ sample_members kvs"

definition sample_dumps :: "json \<Rightarrow> string" where
  "sample_dumps j =
     (case j of JObj kvs \<Rightarrow> ''{'' @ sample_members kvs @ ''}'' | _ \<Rightarrow> sample_scalar j)"

definition env_dumps :: runtime where
  "env_dumps = env0\<lparr>json_dumps := sample_dumps\<rparr>"

text \<open>A token answer that repeats the access token under a further key.\<close>

definition resp_repeat :: response where
  "resp_repeat = \<lparr>status_code = 200, resp_text = ''{...}'',
                   json_result = Inr (JObj [(''access_token'', JStr ''tok123''),
                                            (''refresh_token'', JStr ''ref456''),
                                            (''legacy_token'', JStr ''tok123'')]),
                   reason = ''OK'', url = STRAVA_TOKEN_URL\<rparr>"

section \<open>Traces\<close>

lemma io_events_append [simp]: "io_events (xs @ ys) = io_events xs @ io_events ys"
  by (simp add: io_events_def)

lemma io_events_simps [simp]:
  "io_events [] = []"
  "io_events (Log l m # xs) = io_events xs"
  "io_events (Post p # xs) = Post p # io_events xs"
  "io_events (Sleep n # xs) = Sleep n # io_events xs"
  "io_events (Get u h q # xs) = Get u h q # io_events xs"
  by (simp_all add: io_events_def is_log_def)

lemma count_posts_append [simp]: "count_posts (xs @ ys) = count_posts xs + count_posts ys"
  by (simp add: count_posts_def)

lemma count_posts_simps [simp]:
  "count_posts [] = 0"
  "count_posts (Log l m # xs) = count_posts xs"
  "count_posts (Post p # xs) = Suc (count_posts xs)"
  "count_posts (Sleep n # xs) = count_posts xs"
  "count_posts (Get u h q # xs) = count_posts xs"
  by (simp_all add: count_posts_def is_post_def)

lemma count_gets_append [simp]: "count_gets (xs @ ys) = count_gets xs + count_gets ys"
  by (simp add: count_gets_def)

lemma count_gets_simps [simp]:
  "count_gets [] = 0"
  "count_gets (Log l m # xs) = count_gets xs"
  "count_gets (Post p # xs) = count_gets xs"
  "count_gets (Sleep n # xs) = count_gets xs"
  "count_gets (Get u h q # xs) = Suc (count_gets xs)"
  by (simp_all add: count_gets_def is_get_def)

lemma count_posts_io_events [simp]: "count_posts (io_events tr) = count_posts tr"
  by (induction tr) (auto simp: io_events_def count_posts_def is_post_def is_log_def split: event.splits)

lemma attempts_Suc: "0 < k \<Longrightarrow> attempts p (Suc k) = Post p # Sleep 1 # attempts p k"
  by (cases k) simp_all

lemma count_posts_attempts [simp]: "count_posts (attempts p k) = k"
  by (induction p k rule: attempts.induct) simp_all

section \<open>The retry loop\<close>

lemma retry_loop_script:
  assumes "\<forall>j<N. transport_failure (cl (count_posts tr + j))"
    and "cl (count_posts tr + N) = PostReturns resp"
    and "retries < max_retries"
  shows "fst (retry_loop cl p max_retries retries tr) =
           (if int N < max_retries - retries then Inr (Some resp)
            else outcome_result (cl (count_posts tr + nat (max_retries - retries) - 1)))
         \<and> io_events (snd (retry_loop cl p max_retries retries tr)) =
             io_events tr @ attempts p (min (N + 1) (nat (max_retries - retries)))"
  using assms
proof (induction N arbitrary: retries tr)
  case 0
  then show ?case
    by (subst retry_loop.simps, subst (2) retry_loop.simps) (simp add: min_def)
next
  case (Suc n)
  from Suc.prems(1) have "transport_failure (cl (count_posts tr + 0))" by blast
  then obtain e where e: "cl (count_posts tr) = PostRaises e" "is_transport_fault e"
    by (auto simp: transport_failure_def split: post_outcome.splits)
  show ?case
  proof (cases "retries + 1 < max_retries")
    case True
    let ?tr = "tr @ [Log INFO (''Attempting token exchange (attempt '' @ show_int (retries + 1)
                              @ ''/'' @ show_int max_retries @ '')''),
                     Post p,
                     Log WARNING (''Network error during token exchange: '' @ exn_str e
                              @ ''. Retrying...''),
                     Sleep 1]"
    have step: "retry_loop cl p max_retries retries tr
                  = retry_loop cl p max_retries (retries + 1) ?tr"
      using e True Suc.prems(3) by (subst retry_loop.simps) simp
    have c: "count_posts ?tr = Suc (count_posts tr)" by simp
    have a1: "\<forall>j<n. transport_failure (cl (count_posts ?tr + j))"
      using Suc.prems(1) by (auto simp: c)
    have a2: "cl (count_posts ?tr + n) = PostReturns resp"
      using Suc.prems(2) by (simp add: c)
    note IH = Suc.IH [OF a1 a2 True]
    have k: "min (Suc n + 1) (nat (max_retries - retries))
               = Suc (min (n + 1) (nat (max_retries - (retries + 1))))"
      using True by (auto simp: min_def)
    have pos: "0 < min (n + 1) (nat (max_retries - (retries + 1)))"
      using True by simp
    have idx: "count_posts ?tr + nat (max_retries - (retries + 1)) - 1
                 = count_posts tr + nat (max_retries - retries) - 1"
      using True by (simp add: c)
    show ?thesis
      unfolding step k attempts_Suc [OF pos]
      using IH True unfolding idx by auto
  next
    case False
    with Suc.prems(3) have m: "max_retries - retries = 1" by simp
    show ?thesis
      using e False Suc.prems(3) m
      by (subst retry_loop.simps, subst (2) retry_loop.simps) (simp add: outcome_result_def)
  qed
qed

text \<open>
  C1. Let the token endpoint fail with a transport fault on the next \<open>N\<close> POSTs and answer
  \<open>resp\<close> on the one after, and let \<open>max_retries\<close> be at least 1. Then the retrying
  request returns \<open>resp\<close> if and only if \<open>N < max_retries\<close>; otherwise it raises the
  transport fault of its last attempt. It makes exactly \<open>min (N + 1) max_retries\<close> POSTs of
  the payload, and its upstream calls and sleeps are those POSTs with one sleep of one
  unit between each two consecutive ones: a sleep follows a failed attempt only when
  another attempt follows.
\<close>

theorem retry_bound:
  assumes "1 \<le> max_retries"
    and "\<forall>j<N. transport_failure (cl (count_posts tr + j))"
    and "cl (count_posts tr + N) = PostReturns resp"
  shows "(fst (make_token_request_with_retry cl p max_retries tr) = Inr (Some resp)
            \<longleftrightarrow> int N < max_retries)
       \<and> (\<not> int N < max_retries \<longrightarrow>
            transport_failure (cl (count_posts tr + nat max_retries - 1))
          \<and> fst (make_token_request_with_retry cl p max_retries tr)
              = outcome_result (cl (count_posts tr + nat max_retries - 1)))
       \<and> count_posts (snd (make_token_request_with_retry cl p max_retries tr))
           = count_posts tr + min (N + 1) (nat max_retries)
       \<and> io_events (snd (make_token_request_with_retry cl p max_retries tr))
           = io_events tr @ attempts p (min (N + 1) (nat max_retries))"
proof -
  let ?res = "make_token_request_with_retry cl p max_retries tr"
  have pos: "0 < max_retries" using assms(1) by simp
  from retry_loop_script [OF assms(2) assms(3) pos, of p]
  have r: "fst ?res = (if int N < max_retries then Inr (Some resp)
                       else outcome_result (cl (count_posts tr + nat max_retries - 1)))"
    and io: "io_events (snd ?res) = io_events tr @ attempts p (min (N + 1) (nat max_retries))"
    by (simp_all add: make_token_request_with_retry_def)
  have tf: "transport_failure (cl (count_posts tr + nat max_retries - 1))"
    if "\<not> int N < max_retries"
  proof -
    from that pos have "nat max_retries - 1 < N" by linarith
    with assms(2) have "transport_failure (cl (count_posts tr + (nat max_retries - 1)))" by blast
    moreover have "count_posts tr + (nat max_retries - 1) = count_posts tr + nat max_retries - 1"
      using pos by simp
    ultimately show ?thesis by simp
  qed
  have ne: "outcome_result (cl (count_posts tr + nat max_retries - 1)) \<noteq> Inr (Some resp)"
    if "\<not> int N < max_retries"
    using tf [OF that]
    by (auto simp: transport_failure_def outcome_result_def split: post_outcome.splits)
  have cnt: "count_posts (snd ?res) = count_posts tr + min (N + 1) (nat max_retries)"
  proof -
    have "count_posts (snd ?res) = count_posts (io_events (snd ?res))" by simp
    also have "\<dots> = count_posts tr + min (N + 1) (nat max_retries)"
      unfolding io by simp
    finally show ?thesis .
  qed
  show ?thesis using r io tf ne cnt by auto
qed

theorem retry_bound_witness:
  "fst (make_token_request_with_retry (fails_then 2 resp_200) [] 3 []) = Inr (Some resp_200)
   \<and> io_events (snd (make_token_request_with_retry (fails_then 2 resp_200) [] 3 []))
       = [Post [], Sleep 1, Post [], Sleep 1, Post []]
   \<and> fst (make_token_request_with_retry (fails_then 5 resp_200) [] 3 [])
       = Inl (Timeout ''timed out'')
   \<and> io_events (snd (make_token_request_with_retry (fails_then 5 resp_200) [] 3 []))
       = [Post [], Sleep 1, Post [], Sleep 1, Post []]"
  using retry_bound [of 3 2 "fails_then 2 resp_200" "[]" resp_200 "[]"]
        retry_bound [of 3 5 "fails_then 5 resp_200" "[]" resp_200 "[]"]
  by (simp add: fails_then_def transport_failure_def outcome_result_def eval_nat_numeral)

section \<open>The token handlers\<close>

lemma is_error_body_error_json [simp]: "is_error_body (error_json m)"
  by (simp add: is_error_body_def error_json_def)

lemma retry_returns:
  assumes "\<forall>j<N. transport_failure (cl (count_posts tr + j))"
    and "cl (count_posts tr + N) = PostReturns resp"
    and "int N < max_retries"
  shows "\<exists>tr3. make_token_request_with_retry cl p max_retries tr = (Inr (Some resp), tr3)
           \<and> io_events tr3 = io_events tr @ attempts p (N + 1)"
proof -
  have pos: "0 < max_retries" using assms(3) by simp
  have m: "min (N + 1) (nat max_retries) = N + 1" using assms(3) by simp
  from retry_loop_script [OF assms(1) assms(2) pos, of p] assms(3)
  have "fst (retry_loop cl p max_retries 0 tr) = Inr (Some resp)"
    and "io_events (snd (retry_loop cl p max_retries 0 tr)) = io_events tr @ attempts p (N + 1)"
    using m by simp_all
  then show ?thesis
    unfolding make_token_request_with_retry_def
    by (cases "retry_loop cl p max_retries 0 tr") simp
qed

lemma exchange_token_response_io [simp]:
  "io_events (snd (exchange_token_response env resp tr)) = io_events tr"
  by (simp add: exchange_token_response_def Let_def split: sum.splits json.splits)

lemma refresh_token_response_io [simp]:
  "io_events (snd (refresh_token_response env resp tr)) = io_events tr"
  by (simp add: refresh_token_response_def Let_def split: sum.splits json.splits)

lemma exchange_token_response_error:
  assumes "status_code resp \<noteq> 200"
  shows "\<exists>msg. fst (exchange_token_response env resp tr)
           = Inr \<lparr>status = status_code resp, body = error_json msg\<rparr>"
  using assms
  by (auto simp add: exchange_token_response_def Let_def jsonify_status_def split: sum.splits json.splits)

lemma refresh_token_response_error:
  assumes "status_code resp \<noteq> 200"
  shows "\<exists>msg. fst (refresh_token_response env resp tr)
           = Inr \<lparr>status = status_code resp, body = error_json msg\<rparr>"
  using assms
  by (auto simp add: refresh_token_response_def Let_def jsonify_status_def split: sum.splits json.splits)

lemma exchange_token_response_success:
  assumes "status_code resp = 200" and "json_result resp = Inr (JObj d)"
  shows "exchange_token_response env resp tr =
           (Inr \<lparr>status = 200, body = JObj d\<rparr>,
            tr @ [Log INFO (''Token exchange response status: '' @ show_nat 200),
                  Log INFO (''Token exchange successful: '' @ json_dumps env (JObj (log_safe_data d)))])"
  using assms by (simp add: exchange_token_response_def Let_def jsonify_def)

lemma refresh_token_response_success:
  assumes "status_code resp = 200" and "json_result resp = Inr (JObj d)"
  shows "refresh_token_response env resp tr =
           (Inr \<lparr>status = 200, body = JObj d\<rparr>,
            tr @ [Log INFO (''Token refresh response status: '' @ show_nat 200),
                  Log INFO (''Token refresh successful: '' @ json_dumps env (JObj (log_safe_data d)))])"
  using assms by (simp add: refresh_token_response_def Let_def jsonify_def)

lemma exchange_token_try_upstream:
  assumes "map_of kvs ''code'' = Some code" and "truthy code" and "configured env"
    and "\<forall>j<N. transport_failure (cl (count_posts tr + j))"
    and "cl (count_posts tr + N) = PostReturns resp"
    and "N < 3"
  shows "\<exists>tr3. exchange_token_try env cl (Inr (JObj kvs)) tr = exchange_token_response env resp tr3
           \<and> io_events tr3 = io_events tr @ attempts (authorization_code_grant env code) (N + 1)"
proof -
  let ?tr2 = "tr @ [Log INFO (''Token exchange request received: '' @ json_dumps env (JObj kvs)),
                    Log INFO (''Exchanging code for token with payload: ''
                       @ json_dumps env (JObj (AList.update ''client_secret'' (JStr ''[REDACTED]'')
                           (authorization_code_grant env code))))]"
  have c: "count_posts ?tr2 = count_posts tr" by simp
  have "\<exists>tr3. make_token_request_with_retry cl (authorization_code_grant env code) 3 ?tr2
                 = (Inr (Some resp), tr3)
              \<and> io_events tr3 = io_events ?tr2 @ attempts (authorization_code_grant env code) (N + 1)"
  proof (rule retry_returns)
    show "\<forall>j<N. transport_failure (cl (count_posts ?tr2 + j))"
      unfolding c using assms(4) .
    show "cl (count_posts ?tr2 + N) = PostReturns resp"
      unfolding c using assms(5) .
    show "int N < 3" using assms(6) by simp
  qed
  then obtain tr3 where
    r: "make_token_request_with_retry cl (authorization_code_grant env code) 3 ?tr2 = (Inr (Some resp), tr3)"
    and io: "io_events tr3 = io_events ?tr2 @ attempts (authorization_code_grant env code) (N + 1)"
    by blast
  have "exchange_token_try env cl (Inr (JObj kvs)) tr = exchange_token_response env resp tr3"
    using assms(1-3) r
    by (simp add: exchange_token_try_def dict_get_def configured_def Let_def
        authorization_code_grant_def)
  with io show ?thesis by auto
qed

lemma refresh_token_try_upstream:
  assumes "map_of kvs ''refresh_token'' = Some v" and "truthy v" and "configured env"
    and "\<forall>j<N. transport_failure (cl (count_posts tr + j))"
    and "cl (count_posts tr + N) = PostReturns resp"
    and "N < 3"
  shows "\<exists>tr3. refresh_token_try env cl (Inr (JObj kvs)) tr = refresh_token_response env resp tr3
           \<and> io_events tr3 = io_events tr @ attempts (refresh_token_grant env v) (N + 1)"
proof -
  let ?tr2 = "tr @ [Log INFO (''Refreshing token with payload: ''
                       @ json_dumps env (JObj (AList.update ''refresh_token'' (JStr ''[REDACTED]'')
                           (AList.update ''client_secret'' (JStr ''[REDACTED]'')
                              (refresh_token_grant env v)))))]"
  have c: "count_posts ?tr2 = count_posts tr" by simp
  have "\<exists>tr3. make_token_request_with_retry cl (refresh_token_grant env v) 3 ?tr2
                 = (Inr (Some resp), tr3)
              \<and> io_events tr3 = io_events ?tr2 @ attempts (refresh_token_grant env v) (N + 1)"
  proof (rule retry_returns)
    show "\<forall>j<N. transport_failure (cl (count_posts ?tr2 + j))"
      unfolding c using assms(4) .
    show "cl (count_posts ?tr2 + N) = PostReturns resp"
      unfolding c using assms(5) .
    show "int N < 3" using assms(6) by simp
  qed
  then obtain tr3 where
    r: "make_token_request_with_retry cl (refresh_token_grant env v) 3 ?tr2 = (Inr (Some resp), tr3)"
    and io: "io_events tr3 = io_events ?tr2 @ attempts (refresh_token_grant env v) (N + 1)"
    by blast
  have "refresh_token_try env cl (Inr (JObj kvs)) tr = refresh_token_response env resp tr3"
    using assms(1-3) r
    by (simp add: refresh_token_try_def dict_get_def configured_def Let_def
        refresh_token_grant_def)
  with io show ?thesis by auto
qed

lemma exchange_token_io [simp]:
  "io_events (snd (exchange_token env cl rq tr)) = io_events (snd (exchange_token_try env cl rq tr))"
  by (cases "exchange_token_try env cl rq tr") (simp add: exchange_token_def split: sum.splits)

lemma refresh_token_io [simp]:
  "io_events (snd (refresh_token env cl rq tr)) = io_events (snd (refresh_token_try env cl rq tr))"
  by (cases "refresh_token_try env cl rq tr") (simp add: refresh_token_def split: sum.splits)

lemma exchange_token_Inr:
  "fst (exchange_token_try env cl rq tr) = Inr r \<Longrightarrow> fst (exchange_token env cl rq tr) = Inr r"
  by (cases "exchange_token_try env cl rq tr") (simp add: exchange_token_def)

lemma refresh_token_Inr:
  "fst (refresh_token_try env cl rq tr) = Inr r \<Longrightarrow> fst (refresh_token env cl rq tr) = Inr r"
  by (cases "refresh_token_try env cl rq tr") (simp add: refresh_token_def)

lemma exchange_token_Inl:
  "fst (exchange_token_try env cl rq tr) = Inl e \<Longrightarrow>
   fst (exchange_token env cl rq tr)
     = Inr \<lparr>status = 500, body = error_json (''Exception during token exchange: '' @ exn_str e)\<rparr>"
  by (cases "exchange_token_try env cl rq tr") (simp add: exchange_token_def jsonify_status_def)

lemma refresh_token_Inl:
  "fst (refresh_token_try env cl rq tr) = Inl e \<Longrightarrow>
   fst (refresh_token env cl rq tr)
     = Inr \<lparr>status = 500, body = error_json (''Exception during token refresh: '' @ exn_str e)\<rparr>"
  by (cases "refresh_token_try env cl rq tr") (simp add: refresh_token_def jsonify_status_def)

lemma exchange_token_upstream_error:
  assumes "map_of kvs ''code'' = Some code" and "truthy code" and "configured env"
    and "\<forall>j<N. transport_failure (cl (count_posts tr + j))"
    and "cl (count_posts tr + N) = PostReturns resp"
    and "N < 3"
    and "status_code resp \<noteq> 200"
  shows "\<exists>msg. fst (exchange_token env cl (Inr (JObj kvs)) tr)
           = Inr \<lparr>status = status_code resp, body = error_json msg\<rparr>"
proof -
  from exchange_token_try_upstream [OF assms(1-6)] obtain tr3 where
    "exchange_token_try env cl (Inr (JObj kvs)) tr = exchange_token_response env resp tr3"
    by blast
  moreover from exchange_token_response_error [OF assms(7), of env tr3] obtain msg where
    "fst (exchange_token_response env resp tr3)
       = Inr \<lparr>status = status_code resp, body = error_json msg\<rparr>"
    by blast
  ultimately have "fst (exchange_token env cl (Inr (JObj kvs)) tr)
       = Inr \<lparr>status = status_code resp, body = error_json msg\<rparr>"
    by (simp add: exchange_token_Inr)
  then show ?thesis by blast
qed

lemma exchange_token_upstream_success:
  assumes "map_of kvs ''code'' = Some code" and "truthy code" and "configured env"
    and "\<forall>j<N. transport_failure (cl (count_posts tr + j))"
    and "cl (count_posts tr + N) = PostReturns resp"
    and "N < 3"
    and "status_code resp = 200" and "json_result resp = Inr (JObj d)"
  shows "fst (exchange_token env cl (Inr (JObj kvs)) tr) = Inr \<lparr>status = 200, body = JObj d\<rparr>"
proof -
  from exchange_token_try_upstream [OF assms(1-6)] obtain tr3 where
    "exchange_token_try env cl (Inr (JObj kvs)) tr = exchange_token_response env resp tr3"
    by blast
  then show ?thesis
    by (simp add: exchange_token_response_success [OF assms(7,8)] exchange_token_Inr)
qed

lemma exchange_token_upstream_io:
  assumes "map_of kvs ''code'' = Some code" and "truthy code" and "configured env"
    and "\<forall>j<N. transport_failure (cl (count_posts tr + j))"
    and "cl (count_posts tr + N) = PostReturns resp"
    and "N < 3"
  shows "io_events (snd (exchange_token env cl (Inr (JObj kvs)) tr))
           = io_events tr @ attempts (authorization_code_grant env code) (N + 1)"
proof -
  from exchange_token_try_upstream [OF assms(1-6)] obtain tr3 where
    "exchange_token_try env cl (Inr (JObj kvs)) tr = exchange_token_response env resp tr3"
    "io_events tr3 = io_events tr @ attempts (authorization_code_grant env code) (N + 1)"
    by blast
  then show ?thesis by simp
qed

lemma refresh_token_upstream_error:
  assumes "map_of kvs ''refresh_token'' = Some v" and "truthy v" and "configured env"
    and "\<forall>j<N. transport_failure (cl (count_posts tr + j))"
    and "cl (count_posts tr + N) = PostReturns resp"
    and "N < 3"
    and "status_code resp \<noteq> 200"
  shows "\<exists>msg. fst (refresh_token env cl (Inr (JObj kvs)) tr)
           = Inr \<lparr>status = status_code resp, body = error_json msg\<rparr>"
proof -
  from refresh_token_try_upstream [OF assms(1-6)] obtain tr3 where
    "refresh_token_try env cl (Inr (JObj kvs)) tr = refresh_token_response env resp tr3"
    by blast
  moreover from refresh_token_response_error [OF assms(7), of env tr3] obtain msg where
    "fst (refresh_token_response env resp tr3)
       = Inr \<lparr>status = status_code resp, body = error_json msg\<rparr>"
    by blast
  ultimately have "fst (refresh_token env cl (Inr (JObj kvs)) tr)
       = Inr \<lparr>status = status_code resp, body = error_json msg\<rparr>"
    by (simp add: refresh_token_Inr)
  then show ?thesis by blast
qed

lemma refresh_token_upstream_success:
  assumes "map_of kvs ''refresh_token'' = Some v" and "truthy v" and "configured env"
    and "\<forall>j<N. transport_failure (cl (count_posts tr + j))"
    and "cl (count_posts tr + N) = PostReturns resp"
    and "N < 3"
    and "status_code resp = 200" and "json_result resp = Inr (JObj d)"
  shows "fst (refresh_token env cl (Inr (JObj kvs)) tr) = Inr \<lparr>status = 200, body = JObj d\<rparr>"
proof -
  from refresh_token_try_upstream [OF assms(1-6)] obtain tr3 where
    "refresh_token_try env cl (Inr (JObj kvs)) tr = refresh_token_response env resp tr3"
    by blast
  then show ?thesis
    by (simp add: refresh_token_response_success [OF assms(7,8)] refresh_token_Inr)
qed

lemma refresh_token_upstream_io:
  assumes "map_of kvs ''refresh_token'' = Some v" and "truthy v" and "configured env"
    and "\<forall>j<N. transport_failure (cl (count_posts tr + j))"
    and "cl (count_posts tr + N) = PostReturns resp"
    and "N < 3"
  shows "io_events (snd (refresh_token env cl (Inr (JObj kvs)) tr))
           = io_events tr @ attempts (refresh_token_grant env v) (N + 1)"
proof -
  from refresh_token_try_upstream [OF assms(1-6)] obtain tr3 where
    "refresh_token_try env cl (Inr (JObj kvs)) tr = refresh_token_response env resp tr3"
    "io_events tr3 = io_events tr @ attempts (refresh_token_grant env v) (N + 1)"
    by blast
  then show ?thesis by simp
qed

lemma retry_first_returns:
  assumes "1 \<le> max_retries" and "cl (count_posts tr) = PostReturns resp"
  shows "fst (make_token_request_with_retry cl p max_retries tr) = Inr (Some resp)
       \<and> io_events (snd (make_token_request_with_retry cl p max_retries tr)) = io_events tr @ [Post p]"
proof -
  have "\<exists>tr3. make_token_request_with_retry cl p max_retries tr = (Inr (Some resp), tr3)
           \<and> io_events tr3 = io_events tr @ attempts p (0 + 1)"
    by (rule retry_returns) (use assms in simp_all)
  then show ?thesis by auto
qed

text \<open>
  C2. When the first POST to the token endpoint returns a response, the retrying request
  makes that one attempt, does not sleep, and returns the response. When the response
  carries a status other than 200, \<^verbatim>\<open>exchange_token\<close> and \<^verbatim>\<open>refresh_token\<close> answer with an
  \<^verbatim>\<open>{"error": message}\<close> body and the upstream's status code, after that single POST.
\<close>

theorem http_error_not_retried:
  assumes "cl (count_posts tr) = PostReturns resp" and "status_code resp \<noteq> 200"
    and "1 \<le> max_retries"
    and "map_of kvs ''code'' = Some code" and "truthy code"
    and "map_of kvs' ''refresh_token'' = Some v" and "truthy v"
    and "configured env"
  shows "fst (make_token_request_with_retry cl p max_retries tr) = Inr (Some resp)
       \<and> io_events (snd (make_token_request_with_retry cl p max_retries tr)) = io_events tr @ [Post p]
       \<and> (\<exists>msg. fst (exchange_token env cl (Inr (JObj kvs)) tr)
             = Inr \<lparr>status = status_code resp, body = error_json msg\<rparr>)
       \<and> io_events (snd (exchange_token env cl (Inr (JObj kvs)) tr))
           = io_events tr @ [Post (authorization_code_grant env code)]
       \<and> (\<exists>msg. fst (refresh_token env cl (Inr (JObj kvs')) tr)
             = Inr \<lparr>status = status_code resp, body = error_json msg\<rparr>)
       \<and> io_events (snd (refresh_token env cl (Inr (JObj kvs')) tr))
           = io_events tr @ [Post (refresh_token_grant env v)]"
proof -
  have f: "\<forall>j<0. transport_failure (cl (count_posts tr + j))" by simp
  have r: "cl (count_posts tr + 0) = PostReturns resp" using assms(1) by simp
  have n: "(0::nat) < 3" by simp
  note a = retry_first_returns [of max_retries cl tr resp p, OF assms(3) assms(1)]
  note b = exchange_token_upstream_error [OF assms(4,5,8) f r n assms(2)]
  note c = exchange_token_upstream_io [OF assms(4,5,8) f r n]
  note d = refresh_token_upstream_error [OF assms(6,7,8) f r n assms(2)]
  note e = refresh_token_upstream_io [OF assms(6,7,8) f r n]
  show ?thesis using a b c d e by simp
qed

theorem http_error_not_retried_witness:
  "fst (make_token_request_with_retry (fails_then 0 resp_401) [] 3 []) = Inr (Some resp_401)
   \<and> io_events (snd (make_token_request_with_retry (fails_then 0 resp_401) [] 3 [])) = [Post []]
   \<and> (\<exists>msg. fst (exchange_token env0 (fails_then 0 resp_401)
                  (Inr (JObj [(''code'', JStr ''abc123'')])) [])
          = Inr \<lparr>status = 401, body = error_json msg\<rparr>)
   \<and> io_events (snd (exchange_token env0 (fails_then 0 resp_401)
                  (Inr (JObj [(''code'', JStr ''abc123'')])) []))
        = [Post (authorization_code_grant env0 (JStr ''abc123''))]
   \<and> (\<exists>msg. fst (refresh_token env0 (fails_then 0 resp_401)
                  (Inr (JObj [(''refresh_token'', JStr ''Y'')])) [])
          = Inr \<lparr>status = 401, body = error_json msg\<rparr>)"
  using http_error_not_retried [of "fails_then 0 resp_401" "[]" resp_401 3
          "[(''code'', JStr ''abc123'')]" "JStr ''abc123''"
          "[(''refresh_token'', JStr ''Y'')]" "JStr ''Y''" env0 "[]"]
  by (simp add: fails_then_def resp_401_def configured_def env0_def unset_def)

lemma show_nat_201: "show_nat 201 = ''201''"
  by code_simp

text \<open>
  C3, as amended. Take a request to exchange-token with a truthy \<open>code\<close> and configured
  credentials, and a token endpoint that answers \<open>resp\<close> after fewer than three transport
  faults. If the status of \<open>resp\<close> is not 200, the handler answers with an
  \<^verbatim>\<open>{"error": message}\<close> body and that status. If the status is 200 and the body of
  \<open>resp\<close> is a JSON object, the handler answers 200 with that object unchanged.
\<close>

theorem upstream_status_handling:
  assumes "map_of kvs ''code'' = Some code" and "truthy code" and "configured env"
    and "\<forall>j<N. transport_failure (cl (count_posts tr + j))"
    and "cl (count_posts tr + N) = PostReturns resp"
    and "N < 3"
  shows "(status_code resp \<noteq> 200 \<longrightarrow>
            (\<exists>msg. fst (exchange_token env cl (Inr (JObj kvs)) tr)
               = Inr \<lparr>status = status_code resp, body = error_json msg\<rparr>))
       \<and> (status_code resp = 200 \<longrightarrow>
            (\<forall>d. json_result resp = Inr (JObj d) \<longrightarrow>
               fst (exchange_token env cl (Inr (JObj kvs)) tr)
                 = Inr \<lparr>status = 200, body = JObj d\<rparr>))"
  using exchange_token_upstream_error [OF assms]
        exchange_token_upstream_success [OF assms]
  by blast

theorem upstream_status_handling_witness:
  "(\<exists>msg. fst (exchange_token env0 (fails_then 1 resp_401) (Inr (JObj [(''code'', JStr ''abc123'')])) [])
       = Inr \<lparr>status = 401, body = error_json msg\<rparr>)
   \<and> fst (exchange_token env0 (fails_then 2 resp_200) (Inr (JObj [(''code'', JStr ''abc123'')])) [])
       = Inr \<lparr>status = 200, body = token_body\<rparr>"
  using upstream_status_handling [of "[(''code'', JStr ''abc123'')]" "JStr ''abc123''" env0 1
          "fails_then 1 resp_401" "[]" resp_401]
        upstream_status_handling [of "[(''code'', JStr ''abc123'')]" "JStr ''abc123''" env0 2
          "fails_then 2 resp_200" "[]" resp_200]
  by (simp add: fails_then_def resp_401_def resp_200_def token_body_def configured_def env0_def
      unset_def transport_failure_def eval_nat_numeral)

text \<open>
  C3 as stated fails: the handler compares the status with 200, so a 201 answer whose
  body is the token object is reported as an error with status 201.
\<close>

theorem created_status_counterexample:
  "200 \<le> status_code resp_201 \<and> status_code resp_201 < 300
   \<and> json_result resp_201 = Inr token_body
   \<and> fst (exchange_token env0 (fails_then 0 resp_201) (Inr (JObj [(''code'', JStr ''abc123'')])) [])
       = Inr \<lparr>status = 201, body = error_json ''Strava API error: 201 - <json>''\<rparr>
   \<and> fst (exchange_token env0 (fails_then 0 resp_201) (Inr (JObj [(''code'', JStr ''abc123'')])) [])
       \<noteq> Inr \<lparr>status = 200, body = token_body\<rparr>"
proof -
  have "\<exists>tr3. exchange_token_try env0 (fails_then 0 resp_201)
                 (Inr (JObj [(''code'', JStr ''abc123'')])) []
               = exchange_token_response env0 resp_201 tr3
             \<and> io_events tr3 = io_events [] @ attempts (authorization_code_grant env0 (JStr ''abc123'')) (0 + 1)"
    by (rule exchange_token_try_upstream)
       (simp_all add: configured_def env0_def unset_def fails_then_def)
  then obtain tr3 where t: "exchange_token_try env0 (fails_then 0 resp_201)
                 (Inr (JObj [(''code'', JStr ''abc123'')])) []
               = exchange_token_response env0 resp_201 tr3"
    by blast
  have "fst (exchange_token_response env0 resp_201 tr3)
       = Inr \<lparr>status = 201, body = error_json ''Strava API error: 201 - <json>''\<rparr>"
    by (simp add: exchange_token_response_def resp_201_def token_body_def fmt_def
        jsonify_status_def show_nat_201 Let_def env0_def)
  with t have "fst (exchange_token env0 (fails_then 0 resp_201) (Inr (JObj [(''code'', JStr ''abc123'')])) [])
       = Inr \<lparr>status = 201, body = error_json ''Strava API error: 201 - <json>''\<rparr>"
    by (simp add: exchange_token_Inr)
  then show ?thesis
    by (simp add: resp_201_def)
qed

lemma bearer_token_None: "bearer_token None = []"
  by (simp add: bearer_token_def py_replace.simps)

lemma bearer_token_bare: "bearer_token (Some ''Bearer '') = []"
  unfolding bearer_token_def
  by (subst py_replace.simps, subst py_replace.simps) simp

text \<open>
  C4. A JSON-object body whose \<open>code\<close> is absent or falsy gets 400 from exchange-token, one
  whose \<open>refresh_token\<close> is absent or falsy gets 400 from refresh-token, and a request whose
  Authorization header leaves no token gets 401 from activities and from athlete-zones;
  each answer is an \<^verbatim>\<open>{"error": message}\<close> body, and the handler makes no upstream call.
\<close>

theorem missing_field_rejected:
  "(missing kvs ''code'' \<longrightarrow>
      fst (exchange_token env cl (Inr (JObj kvs)) tr)
        = Inr \<lparr>status = 400, body = error_json ''No authorization code provided''\<rparr>
      \<and> io_events (snd (exchange_token env cl (Inr (JObj kvs)) tr)) = io_events tr)
   \<and> (missing kvs ''refresh_token'' \<longrightarrow>
      fst (refresh_token env cl (Inr (JObj kvs)) tr)
        = Inr \<lparr>status = 400, body = error_json ''No refresh token provided''\<rparr>
      \<and> io_events (snd (refresh_token env cl (Inr (JObj kvs)) tr)) = io_events tr)
   \<and> (bearer_token auth = [] \<longrightarrow>
      get_activities gcl auth args tr
        = (Inr \<lparr>status = 401, body = error_json ''No access token provided''\<rparr>, tr)
      \<and> get_athlete_zones gcl auth tr
        = (Inr \<lparr>status = 401, body = error_json ''No access token provided''\<rparr>, tr))"
proof -
  have a: "fst (exchange_token env cl (Inr (JObj kvs)) tr)
        = Inr \<lparr>status = 400, body = error_json ''No authorization code provided''\<rparr>
      \<and> io_events (snd (exchange_token env cl (Inr (JObj kvs)) tr)) = io_events tr"
    if "missing kvs ''code''"
    using that
    by (auto simp: missing_def exchange_token_def exchange_token_try_def dict_get_def
        jsonify_status_def Let_def split: option.splits)
  have b: "fst (refresh_token env cl (Inr (JObj kvs)) tr)
        = Inr \<lparr>status = 400, body = error_json ''No refresh token provided''\<rparr>
      \<and> io_events (snd (refresh_token env cl (Inr (JObj kvs)) tr)) = io_events tr"
    if "missing kvs ''refresh_token''"
    using that
    by (auto simp: missing_def refresh_token_def refresh_token_try_def dict_get_def
        jsonify_status_def Let_def split: option.splits)
  have c: "get_activities gcl auth args tr
        = (Inr \<lparr>status = 401, body = error_json ''No access token provided''\<rparr>, tr)
      \<and> get_athlete_zones gcl auth tr
        = (Inr \<lparr>status = 401, body = error_json ''No access token provided''\<rparr>, tr)"
    if "bearer_token auth = []"
    using that
    by (simp add: bearer_token_def get_activities_def get_athlete_zones_def jsonify_status_def)
  show ?thesis using a b c by blast
qed

theorem missing_field_rejected_witness:
  "fst (exchange_token env0 (fails_then 0 resp_200) (Inr (JObj [(''code'', JStr '''')])) [])
     = Inr \<lparr>status = 400, body = error_json ''No authorization code provided''\<rparr>
   \<and> io_events (snd (exchange_token env0 (fails_then 0 resp_200) (Inr (JObj [(''code'', JStr '''')])) [])) = []
   \<and> fst (refresh_token env0 (fails_then 0 resp_200) (Inr (JObj [(''code'', JStr '''')])) [])
     = Inr \<lparr>status = 400, body = error_json ''No refresh token provided''\<rparr>
   \<and> io_events (snd (refresh_token env0 (fails_then 0 resp_200) (Inr (JObj [(''code'', JStr '''')])) [])) = []
   \<and> get_activities (\<lambda>k. GetReturns resp_200) (Some ''Bearer '') [] []
     = (Inr \<lparr>status = 401, body = error_json ''No access token provided''\<rparr>, [])
   \<and> get_athlete_zones (\<lambda>k. GetReturns resp_200) (Some ''Bearer '') []
     = (Inr \<lparr>status = 401, body = error_json ''No access token provided''\<rparr>, [])"
  using missing_field_rejected [of "[(''code'', JStr '''')]" env0 "fails_then 0 resp_200" "[]"
          "Some ''Bearer ''" "\<lambda>k. GetReturns resp_200" "[]"]
  by (simp add: missing_def bearer_token_bare)

text \<open>
  C10. When the body of a POST to exchange-token or refresh-token does not parse, or
  parses to a value that is not a JSON object (\<open>null\<close> among them), the handler's blanket
  exception handler answers 500 with an \<^verbatim>\<open>{"error": message}\<close> body, and no upstream call
  is made.
\<close>

theorem non_object_body:
  assumes "\<not> is_object rq"
  shows "(\<exists>msg. fst (exchange_token env cl rq tr) = Inr \<lparr>status = 500, body = error_json msg\<rparr>)
       \<and> io_events (snd (exchange_token env cl rq tr)) = io_events tr
       \<and> (\<exists>msg. fst (refresh_token env cl rq tr) = Inr \<lparr>status = 500, body = error_json msg\<rparr>)
       \<and> io_events (snd (refresh_token env cl rq tr)) = io_events tr"
proof -
  have e: "\<exists>e. exchange_token_try env cl rq tr = (Inl e, tr) \<or>
        (\<exists>j. exchange_token_try env cl rq tr = (Inl e, tr @ [Log INFO (''Token exchange request received: '' @ json_dumps env j)]))"
    using assms
    by (auto simp: is_object_def exchange_token_try_def dict_get_def Let_def split: sum.splits json.splits)
  have r: "\<exists>e. refresh_token_try env cl rq tr = (Inl e, tr)"
    using assms
    by (auto simp: is_object_def refresh_token_try_def dict_get_def Let_def split: sum.splits json.splits)
  from e obtain e1 where e1: "fst (exchange_token_try env cl rq tr) = Inl e1"
    "io_events (snd (exchange_token_try env cl rq tr)) = io_events tr" by auto
  from r obtain e2 where e2: "fst (refresh_token_try env cl rq tr) = Inl e2"
    "io_events (snd (refresh_token_try env cl rq tr)) = io_events tr" by auto
  show ?thesis
    using exchange_token_Inl [OF e1(1)] refresh_token_Inl [OF e2(1)] e1(2) e2(2)
    by auto
qed

theorem non_object_body_witness:
  "(\<exists>msg. fst (exchange_token env0 (fails_then 0 resp_200) (Inr JNull) [])
       = Inr \<lparr>status = 500, body = error_json msg\<rparr>)
   \<and> io_events (snd (exchange_token env0 (fails_then 0 resp_200) (Inr JNull) [])) = []
   \<and> (\<exists>msg. fst (refresh_token env0 (fails_then 0 resp_200) (Inr JNull) [])
       = Inr \<lparr>status = 500, body = error_json msg\<rparr>)
   \<and> io_events (snd (refresh_token env0 (fails_then 0 resp_200) (Inr JNull) [])) = []"
  using non_object_body [of "Inr JNull" env0 "fails_then 0 resp_200" "[]"]
  by (simp add: is_object_def)

section \<open>The fetch handlers\<close>

lemma fetch_try_http_error:
  assumes "400 \<le> status_code resp" and "status_code resp < 600"
  shows "\<exists>m. fetch_try (GetReturns resp) = Inl (HTTPError m resp)"
  using assms by (auto simp: fetch_try_def raise_for_status_def)

lemma get_activities_http_error:
  assumes "bearer_token auth \<noteq> []" and "gcl (count_gets tr) = GetReturns resp"
    and "400 \<le> status_code resp" and "status_code resp < 600"
  shows "\<exists>msg. fst (get_activities gcl auth args tr)
           = Inr \<lparr>status = status_code resp,
                  body = (case json_result resp of Inr v \<Rightarrow> v | Inl m \<Rightarrow> error_json msg)\<rparr>"
proof -
  from fetch_try_http_error [OF assms(3,4)] obtain m where
    "fetch_try (GetReturns resp) = Inl (HTTPError m resp)" by blast
  then have "fst (get_activities gcl auth args tr)
           = Inr \<lparr>status = status_code resp,
                  body = (case json_result resp of Inr v \<Rightarrow> v | Inl x \<Rightarrow> error_json m)\<rparr>"
    using assms(1,2)
    by (simp add: get_activities_def bearer_token_def Let_def jsonify_status_def split: sum.splits)
  then show ?thesis by blast
qed

lemma get_athlete_zones_http_error:
  assumes "bearer_token auth \<noteq> []" and "gcl (count_gets tr) = GetReturns resp"
    and "400 \<le> status_code resp" and "status_code resp < 600"
  shows "\<exists>msg. fst (get_athlete_zones gcl auth tr)
           = Inr \<lparr>status = status_code resp,
                  body = (case json_result resp of Inr v \<Rightarrow> v | Inl m \<Rightarrow> error_json msg)\<rparr>"
proof -
  from fetch_try_http_error [OF assms(3,4)] obtain m where
    "fetch_try (GetReturns resp) = Inl (HTTPError m resp)" by blast
  then have "fst (get_athlete_zones gcl auth tr)
           = Inr \<lparr>status = status_code resp,
                  body = (case json_result resp of Inr v \<Rightarrow> v | Inl x \<Rightarrow> error_json m)\<rparr>"
    using assms(1,2)
    by (simp add: get_athlete_zones_def bearer_token_def Let_def jsonify_status_def split: sum.splits)
  then show ?thesis by blast
qed

lemma get_activities_no_response:
  assumes "bearer_token auth \<noteq> []" and "gcl (count_gets tr) = GetRaises e"
    and "is_request_exception e" and "exn_response e = None"
  shows "fst (get_activities gcl auth args tr)
           = Inr \<lparr>status = 500, body = error_json (exn_str e)\<rparr>"
  using assms
  by (simp add: get_activities_def bearer_token_def Let_def jsonify_status_def fetch_try_def)

lemma get_athlete_zones_no_response:
  assumes "bearer_token auth \<noteq> []" and "gcl (count_gets tr) = GetRaises e"
    and "is_request_exception e" and "exn_response e = None"
  shows "fst (get_athlete_zones gcl auth tr)
           = Inr \<lparr>status = 500, body = error_json (exn_str e)\<rparr>"
  using assms
  by (simp add: get_athlete_zones_def bearer_token_def Let_def jsonify_status_def fetch_try_def)

lemma get_activities_io:
  assumes "bearer_token auth \<noteq> []"
  shows "io_events (snd (get_activities gcl auth args tr))
           = io_events tr @ [Get STRAVA_ACTIVITIES_URL
                               [(''Authorization'', ''Bearer '' @ bearer_token auth)] args]"
  using assms
  by (simp add: get_activities_def bearer_token_def Let_def split: sum.splits option.splits)

lemma get_athlete_zones_io:
  assumes "bearer_token auth \<noteq> []"
  shows "io_events (snd (get_athlete_zones gcl auth tr))
           = io_events tr @ [Get STRAVA_ATHLETE_ZONES_URL
                               [(''Authorization'', ''Bearer '' @ bearer_token auth)] []]"
  using assms
  by (simp add: get_athlete_zones_def bearer_token_def Let_def split: sum.splits option.splits)

text \<open>
  C7. Take an activities or athlete-zones request whose header leaves a token. When the
  GET returns a response with a status from 400 to 599, the handler answers with the
  upstream status code and with the upstream body, if it parses as JSON, or else with a
  synthesized \<^verbatim>\<open>{"error": message}\<close>. When the GET raises with no response attached (a
  transport fault), the handler answers 500 with a synthesized \<^verbatim>\<open>{"error": message}\<close>.
  In every case the handler makes exactly one GET and no other upstream call or sleep.
\<close>

theorem fetch_failure_relayed:
  assumes "bearer_token auth \<noteq> []"
  shows "(\<forall>resp. gcl (count_gets tr) = GetReturns resp \<and> 400 \<le> status_code resp
             \<and> status_code resp < 600 \<longrightarrow>
           (\<exists>msg. fst (get_activities gcl auth args tr)
              = Inr \<lparr>status = status_code resp,
                     body = (case json_result resp of Inr v \<Rightarrow> v | Inl m \<Rightarrow> error_json msg)\<rparr>)
         \<and> (\<exists>msg. fst (get_athlete_zones gcl auth tr)
              = Inr \<lparr>status = status_code resp,
                     body = (case json_result resp of Inr v \<Rightarrow> v | Inl m \<Rightarrow> error_json msg)\<rparr>))
       \<and> (\<forall>e. gcl (count_gets tr) = GetRaises e \<and> is_request_exception e
             \<and> exn_response e = None \<longrightarrow>
           fst (get_activities gcl auth args tr)
             = Inr \<lparr>status = 500, body = error_json (exn_str e)\<rparr>
         \<and> fst (get_athlete_zones gcl auth tr)
             = Inr \<lparr>status = 500, body = error_json (exn_str e)\<rparr>)
       \<and> io_events (snd (get_activities gcl auth args tr))
           = io_events tr @ [Get STRAVA_ACTIVITIES_URL
                               [(''Authorization'', ''Bearer '' @ bearer_token auth)] args]
       \<and> io_events (snd (get_athlete_zones gcl auth tr))
           = io_events tr @ [Get STRAVA_ATHLETE_ZONES_URL
                               [(''Authorization'', ''Bearer '' @ bearer_token auth)] []]"
  using get_activities_http_error [OF assms, of gcl tr _ args]
        get_athlete_zones_http_error [OF assms, of gcl tr]
        get_activities_no_response [OF assms, of gcl tr _ args]
        get_athlete_zones_no_response [OF assms, of gcl tr]
        get_activities_io [OF assms, of gcl args tr]
        get_athlete_zones_io [OF assms, of gcl tr]
  by blast

lemma bearer_token_abc: "bearer_token (Some ''Bearer abc'') = ''abc''"
  unfolding bearer_token_def by code_simp

theorem fetch_failure_relayed_witness:
  "fst (get_activities gcl_401 (Some ''Bearer abc'') [] [])
     = Inr \<lparr>status = 401, body = JObj [(''message'', JStr ''Authorization Error'')]\<rparr>
   \<and> fst (get_athlete_zones gcl_401 (Some ''Bearer abc'') [])
     = Inr \<lparr>status = 401, body = JObj [(''message'', JStr ''Authorization Error'')]\<rparr>
   \<and> fst (get_activities (\<lambda>k. GetRaises (Timeout ''timed out'')) (Some ''Bearer abc'') [] [])
     = Inr \<lparr>status = 500, body = error_json ''timed out''\<rparr>
   \<and> io_events (snd (get_activities gcl_401 (Some ''Bearer abc'') [] []))
     = [Get STRAVA_ACTIVITIES_URL [(''Authorization'', ''Bearer abc'')] []]"
  using fetch_failure_relayed [of "Some ''Bearer abc''" gcl_401 "[]" "[]"]
        fetch_failure_relayed [of "Some ''Bearer abc''" "\<lambda>k. GetRaises (Timeout ''timed out'')" "[]" "[]"]
  by (simp add: bearer_token_abc gcl_401_def resp_401_def)

section \<open>The bearer token\<close>

lemma py_replace_Nil [simp]: "old \<noteq> [] \<Longrightarrow> py_replace old new [] = []"
  by (simp add: py_replace.simps)

lemma py_replace_prefix:
  "old \<noteq> [] \<Longrightarrow> py_replace old new (old @ s) = new @ py_replace old new s"
  by (subst py_replace.simps) simp

lemma py_replace_Cons:
  "old \<noteq> [] \<Longrightarrow> \<not> prefix old (c # s) \<Longrightarrow> py_replace old new (c # s) = c # py_replace old new s"
  by (subst py_replace.simps) simp

lemma py_replace_absent:
  "old \<noteq> [] \<Longrightarrow> \<not> sublist old s \<Longrightarrow> py_replace old new s = s"
proof (induction s)
  case Nil
  then show ?case by simp
next
  case (Cons c s)
  have "\<not> prefix old (c # s)" using Cons.prems(2) by (auto dest: prefix_imp_sublist)
  moreover have "\<not> sublist old s" using Cons.prems(2) by (auto simp: sublist_Cons_right)
  ultimately show ?case using Cons by (simp add: py_replace_Cons)
qed

lemma length_py_replace_le:
  "old \<noteq> [] \<Longrightarrow> length (py_replace old [] s) \<le> length s"
proof (induction "length s" arbitrary: s rule: less_induct)
  case less
  show ?case
  proof (cases s)
    case Nil
    with less.prems show ?thesis by simp
  next
    case (Cons c t)
    show ?thesis
    proof (cases "prefix old s")
      case True
      then obtain u where u: "s = old @ u" by (auto simp: prefix_def)
      with less.prems have "length u < length s" by simp
      from less.hyps [OF this less.prems] u less.prems show ?thesis
        by (simp add: py_replace_prefix)
    next
      case False
      with Cons less.prems less.hyps [of t] show ?thesis
        by (simp add: py_replace_Cons)
    qed
  qed
qed

lemma length_py_replace_less:
  "old \<noteq> [] \<Longrightarrow> sublist old s \<Longrightarrow> length (py_replace old [] s) < length s"
proof (induction s)
  case Nil
  then show ?case by simp
next
  case (Cons c s)
  show ?case
  proof (cases "prefix old (c # s)")
    case True
    then obtain u where u: "c # s = old @ u" by (auto simp: prefix_def)
    have "length (py_replace old [] u) \<le> length u"
      by (rule length_py_replace_le [OF Cons.prems(1)])
    moreover have "length (c # s) = length old + length u"
      unfolding u by simp
    moreover have "0 < length old" using Cons.prems(1) by simp
    ultimately have "length (py_replace old [] u) < length (c # s)" by linarith
    then show ?thesis
      unfolding u by (simp add: py_replace_prefix Cons.prems(1))
  next
    case False
    then have "sublist old s" using Cons.prems(2) by (auto simp: sublist_Cons_right)
    with Cons False show ?thesis by (simp add: py_replace_Cons)
  qed
qed

lemma prefix_within:
  assumes "prefix xs (ys @ zs)" and "length xs \<le> length ys"
  shows "prefix xs ys"
  using assms by (auto simp: prefix_append)

lemma py_replace_first:
  assumes "old \<noteq> []" and "\<not> sublist old (a @ butlast old)"
  shows "py_replace old new (a @ old @ b) = a @ new @ py_replace old new b"
  using assms(2)
proof (induction a)
  case Nil
  then show ?case by (simp add: py_replace_prefix assms(1))
next
  case (Cons c a)
  have rest: "\<not> sublist old (a @ butlast old)"
    using Cons.prems by (auto simp: sublist_Cons_right)
  have "\<not> prefix old ((c # a) @ old @ b)"
  proof
    assume p: "prefix old ((c # a) @ old @ b)"
    have split: "(c # a) @ old @ b = ((c # a) @ butlast old) @ (last old # b)"
      using assms(1) by simp
    have "length old \<le> length ((c # a) @ butlast old)" by simp
    with p have "prefix old ((c # a) @ butlast old)"
      unfolding split by (rule prefix_within)
    then have "sublist old ((c # a) @ butlast old)" by (rule prefix_imp_sublist)
    with Cons.prems show False by simp
  qed
  then show ?case
    using Cons.IH [OF rest] assms(1) by (simp add: py_replace_Cons)
qed

lemma bearer_token_verbatim:
  "bearer_token (Some h) = h \<longleftrightarrow> \<not> sublist ''Bearer '' h"
proof
  assume eq: "bearer_token (Some h) = h"
  show "\<not> sublist ''Bearer '' h"
  proof
    assume "sublist ''Bearer '' h"
    then have "length (py_replace ''Bearer '' [] h) < length h"
      by (intro length_py_replace_less) simp_all
    with eq show False by (simp add: bearer_token_def)
  qed
next
  assume "\<not> sublist ''Bearer '' h"
  then show "bearer_token (Some h) = h"
    by (simp add: bearer_token_def py_replace_absent)
qed

lemma bearer_token_first:
  assumes "\<not> sublist ''Bearer '' (a @ ''Bearer'')"
  shows "bearer_token (Some (a @ ''Bearer '' @ b)) = a @ bearer_token (Some b)"
proof -
  have "py_replace ''Bearer '' [] (a @ ''Bearer '' @ b) = a @ [] @ py_replace ''Bearer '' [] b"
    by (rule py_replace_first) (use assms in simp_all)
  then show ?thesis by (simp add: bearer_token_def)
qed

text \<open>
  C9. The access token of the activities and athlete-zones handlers is the
  Authorization header with the occurrences of \<^verbatim>\<open>'Bearer '\<close> removed by \<^verbatim>\<open>str.replace\<close>:
  the header is taken verbatim exactly when it holds no \<^verbatim>\<open>'Bearer '\<close>, with or without
  that prefix, and an occurrence anywhere is cut out (the text up to the first
  occurrence is kept, the occurrence dropped, the rest treated likewise). The handlers
  answer 401 without an upstream call when the resulting string is empty, and
  otherwise send the GET with \<^verbatim>\<open>'Bearer '\<close> followed by the resulting string.
\<close>

theorem bearer_extraction:
  "bearer_token (Some h) = py_replace ''Bearer '' [] h
   \<and> (bearer_token (Some h) = h \<longleftrightarrow> \<not> sublist ''Bearer '' h)
   \<and> (\<not> sublist ''Bearer '' (a @ ''Bearer'') \<longrightarrow>
        bearer_token (Some (a @ ''Bearer '' @ b)) = a @ bearer_token (Some b))
   \<and> (bearer_token auth = [] \<longrightarrow>
        get_activities gcl auth args tr
          = (Inr \<lparr>status = 401, body = error_json ''No access token provided''\<rparr>, tr)
      \<and> get_athlete_zones gcl auth tr
          = (Inr \<lparr>status = 401, body = error_json ''No access token provided''\<rparr>, tr))
   \<and> (bearer_token auth \<noteq> [] \<longrightarrow>
        io_events (snd (get_activities gcl auth args tr))
          = io_events tr @ [Get STRAVA_ACTIVITIES_URL
                              [(''Authorization'', ''Bearer '' @ bearer_token auth)] args]
      \<and> io_events (snd (get_athlete_zones gcl auth tr))
          = io_events tr @ [Get STRAVA_ATHLETE_ZONES_URL
                              [(''Authorization'', ''Bearer '' @ bearer_token auth)] []])"
proof -
  have a: "bearer_token (Some h) = py_replace ''Bearer '' [] h"
    by (simp add: bearer_token_def)
  have d: "get_activities gcl auth args tr
          = (Inr \<lparr>status = 401, body = error_json ''No access token provided''\<rparr>, tr)
      \<and> get_athlete_zones gcl auth tr
          = (Inr \<lparr>status = 401, body = error_json ''No access token provided''\<rparr>, tr)"
    if "bearer_token auth = []"
    using that
    by (simp add: bearer_token_def get_activities_def get_athlete_zones_def jsonify_status_def)
  show ?thesis
    using a bearer_token_verbatim [of h] bearer_token_first [of a b] d
      get_activities_io [of auth gcl args tr] get_athlete_zones_io [of auth gcl tr]
    by blast
qed

lemma bearer_token_basic: "bearer_token (Some ''Basic xyz'') = ''Basic xyz''"
  unfolding bearer_token_def by code_simp

lemma bearer_token_interior: "bearer_token (Some ''abBearer cd'') = ''abcd''"
  unfolding bearer_token_def by code_simp

lemma not_sublist_ab: "\<not> sublist ''Bearer '' ''abBearer''"
  by code_simp

theorem bearer_extraction_witness:
  "bearer_token (Some ''Basic xyz'') = ''Basic xyz''
   \<and> bearer_token (Some (''ab'' @ ''Bearer '' @ ''cd'')) = ''ab'' @ bearer_token (Some ''cd'')
   \<and> get_activities gcl_401 None [] []
       = (Inr \<lparr>status = 401, body = error_json ''No access token provided''\<rparr>, [])
   \<and> io_events (snd (get_activities gcl_401 (Some ''Basic xyz'') [] []))
       = [Get STRAVA_ACTIVITIES_URL [(''Authorization'', ''Bearer Basic xyz'')] []]
   \<and> io_events (snd (get_athlete_zones gcl_401 (Some ''Basic xyz'') []))
       = [Get STRAVA_ATHLETE_ZONES_URL [(''Authorization'', ''Bearer Basic xyz'')] []]"
  using bearer_extraction [of "''Basic xyz''" "''ab''" "''cd''" None gcl_401 "[]" "[]"]
        bearer_extraction [of "''Basic xyz''" "''ab''" "''cd''" "Some ''Basic xyz''" gcl_401 "[]" "[]"]
  by (simp add: bearer_token_basic bearer_token_None not_sublist_ab)

section \<open>No exception escapes\<close>

lemma exchange_token_response_shape:
  "fst (exchange_token_response env resp tr) = Inr r \<Longrightarrow> status r = 200 \<or> is_error_body (body r)"
  by (auto simp: exchange_token_response_def Let_def jsonify_def jsonify_status_def
      split: if_splits sum.splits json.splits)

lemma refresh_token_response_shape:
  "fst (refresh_token_response env resp tr) = Inr r \<Longrightarrow> status r = 200 \<or> is_error_body (body r)"
  by (auto simp: refresh_token_response_def Let_def jsonify_def jsonify_status_def
      split: if_splits sum.splits json.splits)

lemma exchange_token_try_shape:
  assumes "fst (exchange_token_try env cl rq tr) = Inr r"
  shows "status r = 200 \<or> is_error_body (body r)"
proof (cases rq)
  case (Inl e)
  with assms show ?thesis by (simp add: exchange_token_try_def)
next
  case (Inr request_data)
  show ?thesis
  proof (cases "dict_get request_data ''code''")
    case (Inl e)
    with assms Inr show ?thesis by (simp add: exchange_token_try_def Let_def)
  next
    case code: (Inr code)
    show ?thesis
    proof (cases "\<not> truthy code \<or> unset (STRAVA_CLIENT_ID env) \<or> unset (STRAVA_CLIENT_SECRET env)")
      case True
      with assms Inr code show ?thesis
        by (auto simp: exchange_token_try_def Let_def jsonify_status_def split: if_splits)
    next
      case False
      let ?p = "[(''client_id'', JStr (the (STRAVA_CLIENT_ID env))),
                 (''client_secret'', JStr (the (STRAVA_CLIENT_SECRET env))),
                 (''code'', code),
                 (''grant_type'', JStr ''authorization_code'')]"
      let ?tr2 = "tr @ [Log INFO (''Token exchange request received: '' @ json_dumps env request_data),
                        Log INFO (''Exchanging code for token with payload: ''
                           @ json_dumps env (JObj (AList.update ''client_secret'' (JStr ''[REDACTED]'') ?p)))]"
      obtain x tr3 where m: "make_token_request_with_retry cl ?p 3 ?tr2 = (x, tr3)"
        by (cases "make_token_request_with_retry cl ?p 3 ?tr2")
      have t: "exchange_token_try env cl rq tr =
                 (case x of Inl e \<Rightarrow> (Inl e, tr3)
                  | Inr None \<Rightarrow> (Inl (no_attribute JNull ''status_code''), tr3)
                  | Inr (Some resp) \<Rightarrow> exchange_token_response env resp tr3)"
        using False Inr code m by (simp add: exchange_token_try_def Let_def)
      show ?thesis
        using assms unfolding t
        by (auto split: sum.splits option.splits dest: exchange_token_response_shape)
    qed
  qed
qed

lemma refresh_token_try_shape:
  assumes "fst (refresh_token_try env cl rq tr) = Inr r"
  shows "status r = 200 \<or> is_error_body (body r)"
proof (cases rq)
  case (Inl e)
  with assms show ?thesis by (simp add: refresh_token_try_def)
next
  case (Inr request_data)
  show ?thesis
  proof (cases "dict_get request_data ''refresh_token''")
    case (Inl e)
    with assms Inr show ?thesis by (simp add: refresh_token_try_def Let_def)
  next
    case v: (Inr v)
    show ?thesis
    proof (cases "\<not> truthy v \<or> unset (STRAVA_CLIENT_ID env) \<or> unset (STRAVA_CLIENT_SECRET env)")
      case True
      with assms Inr v show ?thesis
        by (auto simp: refresh_token_try_def Let_def jsonify_status_def split: if_splits)
    next
      case False
      let ?p = "[(''client_id'', JStr (the (STRAVA_CLIENT_ID env))),
                 (''client_secret'', JStr (the (STRAVA_CLIENT_SECRET env))),
                 (''refresh_token'', v),
                 (''grant_type'', JStr ''refresh_token'')]"
      let ?tr2 = "tr @ [Log INFO (''Refreshing token with payload: ''
                           @ json_dumps env (JObj (AList.update ''refresh_token'' (JStr ''[REDACTED]'')
                               (AList.update ''client_secret'' (JStr ''[REDACTED]'') ?p))))]"
      obtain x tr3 where m: "make_token_request_with_retry cl ?p 3 ?tr2 = (x, tr3)"
        by (cases "make_token_request_with_retry cl ?p 3 ?tr2")
      have t: "refresh_token_try env cl rq tr =
                 (case x of Inl e \<Rightarrow> (Inl e, tr3)
                  | Inr None \<Rightarrow> (Inl (no_attribute JNull ''status_code''), tr3)
                  | Inr (Some resp) \<Rightarrow> refresh_token_response env resp tr3)"
        using False Inr v m by (simp add: refresh_token_try_def Let_def)
      show ?thesis
        using assms unfolding t
        by (auto split: sum.splits option.splits dest: refresh_token_response_shape)
    qed
  qed
qed

lemma exchange_token_total:
  "\<exists>r. fst (exchange_token env cl rq tr) = Inr r \<and> (status r = 200 \<or> is_error_body (body r))"
proof (cases "fst (exchange_token_try env cl rq tr)")
  case (Inl e)
  from exchange_token_Inl [OF this] show ?thesis by simp
next
  case (Inr r)
  from exchange_token_Inr [OF this] exchange_token_try_shape [OF Inr] show ?thesis by simp
qed

lemma refresh_token_total:
  "\<exists>r. fst (refresh_token env cl rq tr) = Inr r \<and> (status r = 200 \<or> is_error_body (body r))"
proof (cases "fst (refresh_token_try env cl rq tr)")
  case (Inl e)
  from refresh_token_Inl [OF this] show ?thesis by simp
next
  case (Inr r)
  from refresh_token_Inr [OF this] refresh_token_try_shape [OF Inr] show ?thesis by simp
qed

lemma get_auth_url_total:
  "\<exists>r. fst (get_auth_url env args tr) = Inr r \<and> (status r = 200 \<or> is_error_body (body r))"
  by (simp add: get_auth_url_def Let_def jsonify_def jsonify_status_def)

lemma fetch_try_Inr: "fetch_try out = Inr r \<Longrightarrow> status r = 200"
  by (auto simp: fetch_try_def jsonify_def split: get_outcome.splits option.splits sum.splits)

lemma fetch_try_Inl:
  "fetch_try out = Inl e \<Longrightarrow> request_outcome out \<Longrightarrow>
   is_request_exception e \<and> (\<forall>resp. exn_response e = Some resp \<longrightarrow> outcome_response out = Some resp)"
  by (auto simp: fetch_try_def request_outcome_def outcome_response_def raise_for_status_def
      split: get_outcome.splits option.splits sum.splits if_splits)

lemma get_activities_total:
  assumes "request_outcome (gcl (count_gets tr))"
  shows "\<exists>r. fst (get_activities gcl auth args tr) = Inr r
           \<and> (status r = 200 \<or> is_error_body (body r) \<or> relayed r (gcl (count_gets tr)))"
proof (cases "fetch_try (gcl (count_gets tr))")
  case (Inr r)
  with fetch_try_Inr [OF Inr] show ?thesis
    by (simp add: get_activities_def Let_def jsonify_status_def)
next
  case (Inl e)
  from fetch_try_Inl [OF Inl assms] Inl show ?thesis
    by (auto simp: get_activities_def Let_def jsonify_status_def relayed_def
        split: option.splits sum.splits)
qed

lemma get_athlete_zones_total:
  assumes "request_outcome (gcl (count_gets tr))"
  shows "\<exists>r. fst (get_athlete_zones gcl auth tr) = Inr r
           \<and> (status r = 200 \<or> is_error_body (body r) \<or> relayed r (gcl (count_gets tr)))"
proof (cases "fetch_try (gcl (count_gets tr))")
  case (Inr r)
  with fetch_try_Inr [OF Inr] show ?thesis
    by (simp add: get_athlete_zones_def Let_def jsonify_status_def)
next
  case (Inl e)
  from fetch_try_Inl [OF Inl assms] Inl show ?thesis
    by (auto simp: get_athlete_zones_def Let_def jsonify_status_def relayed_def
        split: option.splits sum.splits)
qed

text \<open>
  C6, as amended. Whatever the request and whatever the upstream does (for the two
  fetch handlers: the GET returns a response or raises within
  \<^verbatim>\<open>requests.RequestException\<close>), each of the five handlers returns a response and lets no
  exception escape. The response has status 200 (a success), or its body is
  \<^verbatim>\<open>{"error": message}\<close>, or, in the two fetch handlers only, it carries the JSON body and
  the status of the upstream's own response.
\<close>

theorem handlers_return:
  assumes "request_outcome (gcl (count_gets tr))"
  shows "(\<exists>r. fst (get_auth_url env args tr) = Inr r
            \<and> (status r = 200 \<or> is_error_body (body r)))
       \<and> (\<exists>r. fst (exchange_token env cl rq tr) = Inr r
            \<and> (status r = 200 \<or> is_error_body (body r)))
       \<and> (\<exists>r. fst (refresh_token env cl rq tr) = Inr r
            \<and> (status r = 200 \<or> is_error_body (body r)))
       \<and> (\<exists>r. fst (get_activities gcl auth args tr) = Inr r
            \<and> (status r = 200 \<or> is_error_body (body r) \<or> relayed r (gcl (count_gets tr))))
       \<and> (\<exists>r. fst (get_athlete_zones gcl auth tr) = Inr r
            \<and> (status r = 200 \<or> is_error_body (body r) \<or> relayed r (gcl (count_gets tr))))"
  using get_auth_url_total [of env args tr] exchange_token_total [of env cl rq tr]
    refresh_token_total [of env cl rq tr] get_activities_total [of gcl tr auth args, OF assms]
    get_athlete_zones_total [of gcl tr auth, OF assms]
  by blast

theorem handlers_return_witness:
  "(\<exists>r. fst (get_auth_url env0 [] []) = Inr r \<and> (status r = 200 \<or> is_error_body (body r)))
   \<and> (\<exists>r. fst (exchange_token env0 (fails_then 5 resp_200) (Inr JNull) []) = Inr r
        \<and> (status r = 200 \<or> is_error_body (body r)))
   \<and> (\<exists>r. fst (refresh_token env0 (fails_then 5 resp_200) (Inr JNull) []) = Inr r
        \<and> (status r = 200 \<or> is_error_body (body r)))
   \<and> (\<exists>r. fst (get_activities gcl_401 (Some ''Bearer abc'') [] []) = Inr r
        \<and> (status r = 200 \<or> is_error_body (body r) \<or> relayed r (GetReturns resp_401)))
   \<and> (\<exists>r. fst (get_athlete_zones gcl_401 (Some ''Bearer abc'') []) = Inr r
        \<and> (status r = 200 \<or> is_error_body (body r) \<or> relayed r (GetReturns resp_401)))"
  using handlers_return [where gcl = gcl_401 and tr = "[]" and env = env0 and args = "[]"
          and cl = "fails_then 5 resp_200" and rq = "Inr JNull" and auth = "Some ''Bearer abc''"]
  by (simp add: request_outcome_def gcl_401_def)

text \<open>
  C6 as stated fails: when the upstream answers a GET with 401 and a JSON body of its
  own, the activities handler relays that body, which is not of the form
  \<^verbatim>\<open>{"error": message}\<close>.
\<close>

theorem relayed_body_counterexample:
  "fst (get_activities gcl_401 (Some ''Bearer abc'') [] [])
     = Inr \<lparr>status = 401, body = JObj [(''message'', JStr ''Authorization Error'')]\<rparr>
   \<and> \<not> is_error_body (JObj [(''message'', JStr ''Authorization Error'')])"
  using get_activities_http_error [of "Some ''Bearer abc''" gcl_401 "[]" resp_401 "[]"]
  by (simp add: bearer_token_abc gcl_401_def resp_401_def is_error_body_def)

section \<open>Redaction in the log\<close>

lemma map_fst_log_safe_data: "map fst (log_safe_data d) = map fst d"
  by (induction d) (auto simp: log_safe_data_def)

lemma map_of_log_safe_data:
  "map_of (log_safe_data d) k =
     (if k \<in> {''access_token'', ''refresh_token''}
      then map_option (\<lambda>v. JStr ''[REDACTED]'') (map_of d k) else map_of d k)"
  by (induction d) (auto simp: log_safe_data_def)

lemma exchange_token_snd_Inr:
  "fst (exchange_token_try env cl rq tr) = Inr r \<Longrightarrow>
   snd (exchange_token env cl rq tr) = snd (exchange_token_try env cl rq tr)"
  by (cases "exchange_token_try env cl rq tr") (simp add: exchange_token_def)

lemma refresh_token_snd_Inr:
  "fst (refresh_token_try env cl rq tr) = Inr r \<Longrightarrow>
   snd (refresh_token env cl rq tr) = snd (refresh_token_try env cl rq tr)"
  by (cases "refresh_token_try env cl rq tr") (simp add: refresh_token_def)

lemma exchange_token_success_log:
  assumes "map_of kvs ''code'' = Some code" and "truthy code" and "configured env"
    and "\<forall>j<N. transport_failure (cl (count_posts tr + j))"
    and "cl (count_posts tr + N) = PostReturns resp"
    and "N < 3"
    and "status_code resp = 200" and "json_result resp = Inr (JObj d)"
  shows "\<exists>tr1. snd (exchange_token env cl (Inr (JObj kvs)) tr)
           = tr1 @ [Log INFO (''Token exchange successful: '' @ json_dumps env (JObj (log_safe_data d)))]"
proof -
  from exchange_token_try_upstream [OF assms(1-6)] obtain tr3 where
    t: "exchange_token_try env cl (Inr (JObj kvs)) tr = exchange_token_response env resp tr3"
    by blast
  note s = exchange_token_response_success [OF assms(7,8), of env tr3]
  have "fst (exchange_token_try env cl (Inr (JObj kvs)) tr) = Inr \<lparr>status = 200, body = JObj d\<rparr>"
    by (simp add: t s)
  from exchange_token_snd_Inr [OF this]
  have "snd (exchange_token env cl (Inr (JObj kvs)) tr)
          = (tr3 @ [Log INFO (''Token exchange response status: '' @ show_nat 200)])
            @ [Log INFO (''Token exchange successful: '' @ json_dumps env (JObj (log_safe_data d)))]"
    by (simp add: t s)
  then show ?thesis by blast
qed

lemma refresh_token_success_log:
  assumes "map_of kvs ''refresh_token'' = Some v" and "truthy v" and "configured env"
    and "\<forall>j<N. transport_failure (cl (count_posts tr + j))"
    and "cl (count_posts tr + N) = PostReturns resp"
    and "N < 3"
    and "status_code resp = 200" and "json_result resp = Inr (JObj d)"
  shows "\<exists>tr1. snd (refresh_token env cl (Inr (JObj kvs)) tr)
           = tr1 @ [Log INFO (''Token refresh successful: '' @ json_dumps env (JObj (log_safe_data d)))]"
proof -
  from refresh_token_try_upstream [OF assms(1-6)] obtain tr3 where
    t: "refresh_token_try env cl (Inr (JObj kvs)) tr = refresh_token_response env resp tr3"
    by blast
  note s = refresh_token_response_success [OF assms(7,8), of env tr3]
  have "fst (refresh_token_try env cl (Inr (JObj kvs)) tr) = Inr \<lparr>status = 200, body = JObj d\<rparr>"
    by (simp add: t s)
  from refresh_token_snd_Inr [OF this]
  have "snd (refresh_token env cl (Inr (JObj kvs)) tr)
          = (tr3 @ [Log INFO (''Token refresh response status: '' @ show_nat 200)])
            @ [Log INFO (''Token refresh successful: '' @ json_dumps env (JObj (log_safe_data d)))]"
    by (simp add: t s)
  then show ?thesis by blast
qed

text \<open>
  C8, as amended. When the token endpoint answers 200 with a JSON object \<open>d\<close>, the last
  log record of \<^verbatim>\<open>exchange_token\<close> and of \<^verbatim>\<open>refresh_token\<close> is the dump of
  \<open>log_safe_data d\<close>: the keys of \<open>d\<close> in their order, the values under \<open>access_token\<close> and
  \<open>refresh_token\<close> replaced by \<^verbatim>\<open>'[REDACTED]'\<close>, every other value unchanged. So neither token
  is logged under its own key. The body returned to the caller is \<open>d\<close> itself.
\<close>

theorem token_log_redacted:
  assumes "map_of kvs ''code'' = Some code" and "truthy code"
    and "map_of kvs' ''refresh_token'' = Some v" and "truthy v"
    and "configured env"
    and "\<forall>j<N. transport_failure (cl (count_posts tr + j))"
    and "cl (count_posts tr + N) = PostReturns resp"
    and "N < 3"
    and "status_code resp = 200" and "json_result resp = Inr (JObj d)"
  shows "fst (exchange_token env cl (Inr (JObj kvs)) tr) = Inr \<lparr>status = 200, body = JObj d\<rparr>
       \<and> (\<exists>tr1. snd (exchange_token env cl (Inr (JObj kvs)) tr)
             = tr1 @ [Log INFO (''Token exchange successful: ''
                        @ json_dumps env (JObj (log_safe_data d)))])
       \<and> fst (refresh_token env cl (Inr (JObj kvs')) tr) = Inr \<lparr>status = 200, body = JObj d\<rparr>
       \<and> (\<exists>tr1. snd (refresh_token env cl (Inr (JObj kvs')) tr)
             = tr1 @ [Log INFO (''Token refresh successful: ''
                        @ json_dumps env (JObj (log_safe_data d)))])
       \<and> map fst (log_safe_data d) = map fst d
       \<and> (\<forall>k. map_of (log_safe_data d) k =
             (if k \<in> {''access_token'', ''refresh_token''}
              then map_option (\<lambda>v. JStr ''[REDACTED]'') (map_of d k) else map_of d k))"
  using exchange_token_upstream_success [OF assms(1,2,5-10)]
        exchange_token_success_log [OF assms(1,2,5-10)]
        refresh_token_upstream_success [OF assms(3-10)]
        refresh_token_success_log [OF assms(3-10)]
        map_fst_log_safe_data [of d] map_of_log_safe_data [of d]
  by blast

theorem token_log_redacted_witness:
  "fst (exchange_token env0 (fails_then 1 resp_200) (Inr (JObj [(''code'', JStr ''abc123'')])) [])
     = Inr \<lparr>status = 200, body = token_body\<rparr>
   \<and> fst (refresh_token env0 (fails_then 1 resp_200) (Inr (JObj [(''refresh_token'', JStr ''Y'')])) [])
     = Inr \<lparr>status = 200, body = token_body\<rparr>
   \<and> log_safe_data [(''access_token'', JStr ''X''), (''refresh_token'', JStr ''Y''),
                     (''expires_at'', JNum 123)]
     = [(''access_token'', JStr ''[REDACTED]''), (''refresh_token'', JStr ''[REDACTED]''),
        (''expires_at'', JNum 123)]"
  using token_log_redacted [where kvs = "[(''code'', JStr ''abc123'')]" and code = "JStr ''abc123''"
          and kvs' = "[(''refresh_token'', JStr ''Y'')]" and v = "JStr ''Y''" and env = env0
          and N = 1 and cl = "fails_then 1 resp_200" and tr = "[]" and resp = resp_200
          and d = "[(''access_token'', JStr ''X''), (''refresh_token'', JStr ''Y''),
                    (''expires_at'', JNum 123)]"]
  by (simp add: fails_then_def resp_200_def token_body_def configured_def env0_def unset_def
      transport_failure_def log_safe_data_def)

text \<open>
  C8 as stated fails: redaction goes by key, so a token that the answer also carries
  under another key is written to the log. Here the access token \<^verbatim>\<open>tok123\<close> is in the
  log record of the successful exchange.
\<close>

theorem repeated_token_counterexample:
  "json_result resp_repeat = Inr (JObj [(''access_token'', JStr ''tok123''),
                                        (''refresh_token'', JStr ''ref456''),
                                        (''legacy_token'', JStr ''tok123'')])
   \<and> last (snd (exchange_token env_dumps (fails_then 0 resp_repeat)
                   (Inr (JObj [(''code'', JStr ''abc123'')])) []))
       = Log INFO (''Token exchange successful: {'' @ [CHR 0x22] @ ''access_token'' @ [CHR 0x22]
           @ '': '' @ [CHR 0x22] @ ''[REDACTED]'' @ [CHR 0x22] @ '', '' @ [CHR 0x22]
           @ ''refresh_token'' @ [CHR 0x22] @ '': '' @ [CHR 0x22] @ ''[REDACTED]'' @ [CHR 0x22]
           @ '', '' @ [CHR 0x22] @ ''legacy_token'' @ [CHR 0x22] @ '': '' @ [CHR 0x22]
           @ ''tok123'' @ [CHR 0x22] @ ''}'')"
proof -
  have "\<exists>tr1. snd (exchange_token env_dumps (fails_then 0 resp_repeat)
                  (Inr (JObj [(''code'', JStr ''abc123'')])) [])
           = tr1 @ [Log INFO (''Token exchange successful: '' @ json_dumps env_dumps
                      (JObj (log_safe_data [(''access_token'', JStr ''tok123''),
                                            (''refresh_token'', JStr ''ref456''),
                                            (''legacy_token'', JStr ''tok123'')])))]"
    by (rule exchange_token_success_log [where N = 0 and code = "JStr ''abc123''"
          and resp = resp_repeat])
       (simp_all add: configured_def env_dumps_def env0_def unset_def fails_then_def resp_repeat_def)
  then obtain tr1 where
    "snd (exchange_token env_dumps (fails_then 0 resp_repeat)
                  (Inr (JObj [(''code'', JStr ''abc123'')])) [])
           = tr1 @ [Log INFO (''Token exchange successful: '' @ json_dumps env_dumps
                      (JObj (log_safe_data [(''access_token'', JStr ''tok123''),
                                            (''refresh_token'', JStr ''ref456''),
                                            (''legacy_token'', JStr ''tok123'')])))]"
    by blast
  then show ?thesis
    by (simp add: resp_repeat_def env_dumps_def env0_def sample_dumps_def sample_scalar_def
        log_safe_data_def)
qed

section \<open>Refresh against exchange\<close>

lemma io_shape_append [simp]: "io_shape (xs @ ys) = io_shape xs @ io_shape ys"
  by (simp add: io_shape_def)

lemma io_shape_simps [simp]:
  "io_shape [] = []"
  "io_shape (Log l m # xs) = io_shape xs"
  "io_shape (Post p # xs) = Post [] # io_shape xs"
  "io_shape (Sleep n # xs) = Sleep n # io_shape xs"
  "io_shape (Get u h q # xs) = Get u h q # io_shape xs"
  by (simp_all add: io_shape_def erase_payload_def)

lemma count_posts_io_shape: "count_posts (io_shape tr) = count_posts tr"
proof (induction tr)
  case Nil
  then show ?case by simp
next
  case (Cons ev tr)
  then show ?case by (cases ev) simp_all
qed

lemma io_shape_count_posts: "io_shape tr = io_shape tr' \<Longrightarrow> count_posts tr = count_posts tr'"
  by (metis count_posts_io_shape)

lemma retry_loop_agree:
  "io_shape tr = io_shape tr' \<Longrightarrow>
   fst (retry_loop cl p m r tr) = fst (retry_loop cl p' m r tr')
   \<and> io_shape (snd (retry_loop cl p m r tr)) = io_shape (snd (retry_loop cl p' m r tr'))"
proof (induction cl p m r tr arbitrary: tr' rule: retry_loop.induct)
  case (1 cl payload max_retries retries tr)
  have c: "count_posts tr' = count_posts tr"
    by (rule io_shape_count_posts) (simp add: "1.prems")
  let ?att = "Log INFO (''Attempting token exchange (attempt '' @ show_int (retries + 1)
                              @ ''/'' @ show_int max_retries @ '')'')"
  show ?case
  proof (cases "retries < max_retries")
    case False
    have l: "retry_loop cl payload max_retries retries tr = (Inr None, tr)"
      using False by (subst retry_loop.simps) simp
    have r: "retry_loop cl p' max_retries retries tr' = (Inr None, tr')"
      using False by (subst retry_loop.simps) simp
    show ?thesis unfolding l r using "1.prems" by simp
  next
    case lt: True
    show ?thesis
    proof (cases "cl (count_posts tr)")
      case (PostReturns resp)
      have l: "retry_loop cl payload max_retries retries tr
                 = (Inr (Some resp), tr @ [?att, Post payload])"
        using lt PostReturns by (subst retry_loop.simps) simp
      have r: "retry_loop cl p' max_retries retries tr'
                 = (Inr (Some resp), tr' @ [?att, Post p'])"
        using lt PostReturns c by (subst retry_loop.simps) simp
      show ?thesis unfolding l r using "1.prems" by simp
    next
      case (PostRaises e)
      show ?thesis
      proof (cases "is_transport_fault e \<and> retries + 1 < max_retries")
        case False
        have "\<exists>lg. retry_loop cl payload max_retries retries tr
                 = (Inl e, tr @ [?att, Post payload, Log ERROR lg])
               \<and> retry_loop cl p' max_retries retries tr'
                 = (Inl e, tr' @ [?att, Post p', Log ERROR lg])"
          using lt PostRaises c False
          by (subst retry_loop.simps, subst (2) retry_loop.simps) auto
        then obtain lg where
          l: "retry_loop cl payload max_retries retries tr
                 = (Inl e, tr @ [?att, Post payload, Log ERROR lg])"
          and r: "retry_loop cl p' max_retries retries tr'
                 = (Inl e, tr' @ [?att, Post p', Log ERROR lg])"
          by blast
        show ?thesis unfolding l r using "1.prems" by simp
      next
        case True
        let ?ext = "\<lambda>q. [?att,
                         Post q,
                         Log WARNING (''Network error during token exchange: '' @ exn_str e
                              @ ''. Retrying...''),
                         Sleep 1]"
        have l: "retry_loop cl payload max_retries retries tr
                   = retry_loop cl payload max_retries (retries + 1) (tr @ ?ext payload)"
          using lt PostRaises True by (subst retry_loop.simps) simp
        have r: "retry_loop cl p' max_retries retries tr'
                   = retry_loop cl p' max_retries (retries + 1) (tr' @ ?ext p')"
          using lt PostRaises True c by (subst retry_loop.simps) simp
        have s: "io_shape (tr @ ?ext payload) = io_shape (tr' @ ?ext p')"
          using "1.prems" by simp
        from True have t: "is_transport_fault e" "retries + 1 < max_retries" by simp_all
        show ?thesis
          unfolding l r
          by (rule "1.IH" [OF lt PostRaises t s])
      qed
    qed
  qed
qed

lemma token_response_agree:
  "fst (refresh_token_response env resp tr) = fst (exchange_token_response env resp tr')"
  by (simp add: refresh_token_response_def exchange_token_response_def Let_def
      split: sum.splits json.splits)

lemma token_response_io_shape [simp]:
  "io_shape (snd (exchange_token_response env resp tr)) = io_shape tr"
  "io_shape (snd (refresh_token_response env resp tr)) = io_shape tr"
  by (simp_all add: io_shape_def)

lemma exchange_token_response_not_no_code:
  "fst (exchange_token_response env resp tr) \<noteq> Inr no_code"
  by (auto simp: exchange_token_response_def Let_def no_code_def jsonify_def jsonify_status_def
      error_json_def split: sum.splits json.splits)

lemma make_token_request_agree:
  assumes "io_shape tr = io_shape tr'"
  shows "\<exists>x t t'. make_token_request_with_retry cl p m tr = (x, t)
           \<and> make_token_request_with_retry cl p' m tr' = (x, t')
           \<and> io_shape t = io_shape t'"
proof -
  from retry_loop_agree [OF assms, of cl p m 0 p']
  have "fst (make_token_request_with_retry cl p m tr) = fst (make_token_request_with_retry cl p' m tr')"
    and "io_shape (snd (make_token_request_with_retry cl p m tr))
           = io_shape (snd (make_token_request_with_retry cl p' m tr'))"
    by (simp_all add: make_token_request_with_retry_def)
  then show ?thesis
    by (cases "make_token_request_with_retry cl p m tr",
        cases "make_token_request_with_retry cl p' m tr'") simp
qed

lemma token_try_agree_object:
  assumes "map_of e ''code'' = map_of r ''refresh_token''"
  shows "fst (refresh_token_try env cl (Inr (JObj r)) tr)
           = (if fst (exchange_token_try env cl (Inr (JObj e)) tr) = Inr no_code
              then Inr no_refresh_token
              else fst (exchange_token_try env cl (Inr (JObj e)) tr))
       \<and> io_shape (snd (refresh_token_try env cl (Inr (JObj r)) tr))
           = io_shape (snd (exchange_token_try env cl (Inr (JObj e)) tr))"
proof -
  define v where "v = (case map_of r ''refresh_token'' of Some x \<Rightarrow> x | None \<Rightarrow> JNull)"
  have gr: "dict_get (JObj r) ''refresh_token'' = Inr v"
    by (simp add: dict_get_def v_def)
  have ge: "dict_get (JObj e) ''code'' = Inr v"
    using assms by (simp add: dict_get_def v_def)
  show ?thesis
  proof (cases "truthy v")
    case False
    then show ?thesis
      by (simp add: refresh_token_try_def exchange_token_try_def gr ge Let_def no_code_def
          no_refresh_token_def jsonify_status_def)
  next
    case tv: True
    show ?thesis
    proof (cases "unset (STRAVA_CLIENT_ID env) \<or> unset (STRAVA_CLIENT_SECRET env)")
      case True
      then show ?thesis
        using tv
        by (auto simp: refresh_token_try_def exchange_token_try_def gr ge Let_def no_code_def
            jsonify_status_def)
    next
      case False
      let ?pe = "[(''client_id'', JStr (the (STRAVA_CLIENT_ID env))),
                  (''client_secret'', JStr (the (STRAVA_CLIENT_SECRET env))),
                  (''code'', v),
                  (''grant_type'', JStr ''authorization_code'')]"
      let ?pr = "[(''client_id'', JStr (the (STRAVA_CLIENT_ID env))),
                  (''client_secret'', JStr (the (STRAVA_CLIENT_SECRET env))),
                  (''refresh_token'', v),
                  (''grant_type'', JStr ''refresh_token'')]"
      let ?te = "tr @ [Log INFO (''Token exchange request received: '' @ json_dumps env (JObj e)),
                       Log INFO (''Exchanging code for token with payload: ''
                          @ json_dumps env (JObj (AList.update ''client_secret'' (JStr ''[REDACTED]'') ?pe)))]"
      let ?tr = "tr @ [Log INFO (''Refreshing token with payload: ''
                          @ json_dumps env (JObj (AList.update ''refresh_token'' (JStr ''[REDACTED]'')
                              (AList.update ''client_secret'' (JStr ''[REDACTED]'') ?pr))))]"
      have "io_shape ?tr = io_shape ?te" by simp
      from make_token_request_agree [OF this, of cl ?pr 3 ?pe]
      obtain x t t' where
        mr: "make_token_request_with_retry cl ?pr 3 ?tr = (x, t)"
        and me: "make_token_request_with_retry cl ?pe 3 ?te = (x, t')"
        and sh: "io_shape t = io_shape t'"
        by blast
      have r: "refresh_token_try env cl (Inr (JObj r)) tr =
                 (case x of Inl ex \<Rightarrow> (Inl ex, t)
                  | Inr None \<Rightarrow> (Inl (no_attribute JNull ''status_code''), t)
                  | Inr (Some resp) \<Rightarrow> refresh_token_response env resp t)"
        using False tv mr by (simp add: refresh_token_try_def gr Let_def)
      have e: "exchange_token_try env cl (Inr (JObj e)) tr =
                 (case x of Inl ex \<Rightarrow> (Inl ex, t')
                  | Inr None \<Rightarrow> (Inl (no_attribute JNull ''status_code''), t')
                  | Inr (Some resp) \<Rightarrow> exchange_token_response env resp t')"
        using False tv me by (simp add: exchange_token_try_def ge Let_def)
      show ?thesis
        unfolding r e using sh
        by (auto split: sum.splits option.splits
            simp: token_response_agree [of env _ t t'] exchange_token_response_not_no_code)
    qed
  qed
qed

lemma token_try_agree:
  assumes "corresponding rq_e rq_r"
  shows "fst (refresh_token_try env cl rq_r tr)
           = (if fst (exchange_token_try env cl rq_e tr) = Inr no_code
              then Inr no_refresh_token
              else fst (exchange_token_try env cl rq_e tr))
       \<and> io_shape (snd (refresh_token_try env cl rq_r tr))
           = io_shape (snd (exchange_token_try env cl rq_e tr))"
proof (cases "is_object rq_r")
  case True
  then obtain r where r: "rq_r = Inr (JObj r)"
    by (auto simp: is_object_def split: sum.splits json.splits)
  with assms obtain e where e: "rq_e = Inr (JObj e)" "map_of e ''code'' = map_of r ''refresh_token''"
    by (auto simp: corresponding_def split: sum.splits json.splits)
  show ?thesis unfolding r e(1) by (rule token_try_agree_object [OF e(2)])
next
  case False
  with assms have eq: "rq_e = rq_r"
    by (auto simp: corresponding_def is_object_def split: sum.splits json.splits)
  from False show ?thesis
    unfolding eq
    by (auto simp: is_object_def refresh_token_try_def exchange_token_try_def dict_get_def Let_def
        split: sum.splits json.splits)
qed

lemma token_io_shape [simp]:
  "io_shape (snd (exchange_token env cl rq tr)) = io_shape (snd (exchange_token_try env cl rq tr))"
  "io_shape (snd (refresh_token env cl rq tr)) = io_shape (snd (refresh_token_try env cl rq tr))"
  by (simp_all add: io_shape_def)

text \<open>
  C5, as amended. For a request to refresh-token and the request to exchange-token that
  corresponds to it under the substitution of \<open>refresh_token\<close> for \<open>code\<close>, against the same
  upstream: both handlers return a response, with the same status code, after the same
  upstream calls and sleeps (payloads apart). The bodies are equal when the exchange
  handler answers from the credentials check, from the normalization of a status other
  than 200, or from the pass-through of a success. For a missing field the two bodies
  are \<^verbatim>\<open>{"error": "No authorization code provided"}\<close> and
  \<^verbatim>\<open>{"error": "No refresh token provided"}\<close>; for an exception \<open>e\<close> caught by the blanket
  handler they are \<^verbatim>\<open>{"error": "Exception during token exchange: e"}\<close> and
  \<^verbatim>\<open>{"error": "Exception during token refresh: e"}\<close>.
\<close>

theorem refresh_mirrors_exchange:
  assumes "corresponding rq_e rq_r"
  shows "\<exists>r_e r_r.
           fst (exchange_token env cl rq_e tr) = Inr r_e
         \<and> fst (refresh_token env cl rq_r tr) = Inr r_r
         \<and> status r_r = status r_e
         \<and> body r_e = (case fst (exchange_token_try env cl rq_e tr) of
                          Inl e \<Rightarrow> error_json (''Exception during token exchange: '' @ exn_str e)
                        | Inr r \<Rightarrow> body r)
         \<and> body r_r = (case fst (exchange_token_try env cl rq_e tr) of
                          Inl e \<Rightarrow> error_json (''Exception during token refresh: '' @ exn_str e)
                        | Inr r \<Rightarrow> if r = no_code then error_json ''No refresh token provided''
                                   else body r)
         \<and> io_shape (snd (refresh_token env cl rq_r tr))
             = io_shape (snd (exchange_token env cl rq_e tr))"
proof -
  note a = token_try_agree [OF assms, of env cl tr]
  show ?thesis
  proof (cases "fst (exchange_token_try env cl rq_e tr)")
    case (Inl e)
    with a have r: "fst (refresh_token_try env cl rq_r tr) = Inl e" by simp
    show ?thesis
      using exchange_token_Inl [OF Inl] refresh_token_Inl [OF r] a Inl by simp
  next
    case (Inr r)
    show ?thesis
    proof (cases "r = no_code")
      case True
      with a Inr have rr: "fst (refresh_token_try env cl rq_r tr) = Inr no_refresh_token" by simp
      show ?thesis
        using exchange_token_Inr [OF Inr] refresh_token_Inr [OF rr] a Inr True
        by (simp add: no_code_def no_refresh_token_def)
    next
      case False
      with a Inr have rr: "fst (refresh_token_try env cl rq_r tr) = Inr r" by simp
      show ?thesis
        using exchange_token_Inr [OF Inr] refresh_token_Inr [OF rr] a Inr False by simp
    qed
  qed
qed

theorem refresh_mirrors_exchange_witness:
  "\<exists>r_e r_r.
       fst (exchange_token env0 (fails_then 1 resp_401) (Inr (JObj [(''code'', JStr ''Y'')])) []) = Inr r_e
     \<and> fst (refresh_token env0 (fails_then 1 resp_401) (Inr (JObj [(''refresh_token'', JStr ''Y'')])) [])
         = Inr r_r
     \<and> status r_r = status r_e
     \<and> body r_e = (case fst (exchange_token_try env0 (fails_then 1 resp_401)
                                (Inr (JObj [(''code'', JStr ''Y'')])) []) of
                      Inl e \<Rightarrow> error_json (''Exception during token exchange: '' @ exn_str e)
                    | Inr r \<Rightarrow> body r)
     \<and> body r_r = (case fst (exchange_token_try env0 (fails_then 1 resp_401)
                                (Inr (JObj [(''code'', JStr ''Y'')])) []) of
                      Inl e \<Rightarrow> error_json (''Exception during token refresh: '' @ exn_str e)
                    | Inr r \<Rightarrow> if r = no_code then error_json ''No refresh token provided''
                               else body r)
     \<and> io_shape (snd (refresh_token env0 (fails_then 1 resp_401)
                         (Inr (JObj [(''refresh_token'', JStr ''Y'')])) []))
         = io_shape (snd (exchange_token env0 (fails_then 1 resp_401)
                            (Inr (JObj [(''code'', JStr ''Y'')])) []))"
  using refresh_mirrors_exchange [where rq_e = "Inr (JObj [(''code'', JStr ''Y'')])"
          and rq_r = "Inr (JObj [(''refresh_token'', JStr ''Y'')])" and env = env0
          and cl = "fails_then 1 resp_401" and tr = "[]"]
  by (simp add: corresponding_def)

text \<open>
  C5 as stated fails: to a body without the field the two handlers answer with the same
  status and different bodies.
\<close>

theorem missing_field_wording_counterexample:
  "corresponding (Inr (JObj [])) (Inr (JObj []))
   \<and> fst (exchange_token env0 (fails_then 0 resp_200) (Inr (JObj [])) [])
       = Inr \<lparr>status = 400, body = error_json ''No authorization code provided''\<rparr>
   \<and> fst (refresh_token env0 (fails_then 0 resp_200) (Inr (JObj [])) [])
       = Inr \<lparr>status = 400, body = error_json ''No refresh token provided''\<rparr>
   \<and> error_json ''No refresh token provided'' \<noteq> error_json ''No authorization code provided''"
  by (simp add: corresponding_def exchange_token_def exchange_token_try_def refresh_token_def
      refresh_token_try_def dict_get_def Let_def jsonify_status_def error_json_def)

end
